theory Spec2Isabelle
  imports Main
begin

section \<open>Values exchanged with the HTTP layer\<close>

text \<open>
  The router (\<^verbatim>\<open>litepolis_router_default/core.py\<close>) builds its payloads from Python
  dicts, lists, strings, ints, bools and \<^verbatim>\<open>None\<close>. A dict is an association list in
  insertion order.
\<close>

datatype json =
    JNull
  | JBool bool
  | JInt int
  | JStr string
  | JArray "json list"
  | JObject "(string \<times> json) list"

text \<open>
  \<^verbatim>\<open>class PolisResponse(BaseModel)\<close>: \<^verbatim>\<open>status: str = "ok"\<close>,
  \<^verbatim>\<open>data: Optional[Any] = None\<close>, \<^verbatim>\<open>error: Optional[str] = None\<close>.
\<close>

record PolisResponse =
  status :: string
  data :: "json option"
  error :: "string option"

text \<open>
  What a handler raises. \<^verbatim>\<open>HTTPException(status_code, detail)\<close> is the only exception
  the router raises itself; \<^verbatim>\<open>AttributeError\<close> is what Python raises when an attribute
  is read from \<^verbatim>\<open>None\<close>.
\<close>

datatype failure =
    HTTPException nat string
  | AttributeError

text \<open>
  The dict that \<^verbatim>\<open>get_current_user\<close> returns:
  \<^verbatim>\<open>{"uid": user.id, "email": user.email, "is_admin": user.is_admin}\<close>.
\<close>

record auth_user =
  uid :: int
  email :: string
  is_admin :: bool

section \<open>The persistence collaborator\<close>

text \<open>
  \<^verbatim>\<open>DatabaseActor\<close> is imported from the package \<^verbatim>\<open>litepolis_database_default\<close>,
  which is not part of this repository. The router reaches it only through
  create/read/update/list operations. It is modelled as an in-memory relational store:
  one list of rows per table, rows in insertion order, with the columns that the handlers
  read or write. Text is a list of 8-bit characters. A \<^verbatim>\<open>datetime\<close> is kept as the text
  its \<^verbatim>\<open>isoformat()\<close> returns.
\<close>

type_synonym datetime = string

text \<open>
  A user row. Besides the columns the router reads (\<^verbatim>\<open>id\<close>, \<^verbatim>\<open>email\<close>,
  \<^verbatim>\<open>auth_token\<close>, \<^verbatim>\<open>is_admin\<close>, and \<^verbatim>\<open>hname\<close> through \<^verbatim>\<open>getattr\<close>), the row
  keeps under \<open>user_other\<close> every further key it was created with, so that nothing handed
  to the store is lost from view.
\<close>

record user_row =
  user_id :: int
  user_email :: string
  user_auth_token :: string
  user_hname :: "string option"
  user_is_admin :: bool
  user_other :: "(string \<times> json) list"

record zinvite_row =
  zinvite_zinvite :: string
  zinvite_zid :: int

record conversation_row =
  conv_id :: int
  conv_title :: string
  conv_description :: "string option"
  conv_user_id :: int
  conv_is_archived :: bool
  conv_created :: "datetime option"
  conv_settings :: "(string \<times> json) list option"

record participant_row =
  participant_pid :: int
  participant_zid :: int
  participant_uid :: int
  participant_vote_count :: int
  participant_created :: "datetime option"
  participant_pc :: "string option"

record comment_row =
  comment_id :: int
  comment_text_field :: string
  comment_user_id :: int
  comment_conversation_id :: int
  comment_moderation_status :: int
  comment_created :: "datetime option"

record vote_row =
  vote_id :: int
  vote_user_id :: int
  vote_comment_id :: int
  vote_value :: int
  vote_created :: "datetime option"

text \<open>
  The store: its tables, and what it decides by itself when a row is created: the time it
  stamps on the row (\<open>clock\<close>), the invite code it issues as the \<open>n\<close>-th one
  (\<open>zinvite_gen\<close>), and the page size of a list operation called without one
  (\<open>default_page_size\<close>).
\<close>

record db =
  users :: "user_row list"
  zinvites :: "zinvite_row list"
  conversations :: "conversation_row list"
  participants :: "participant_row list"
  comments :: "comment_row list"
  votes :: "vote_row list"
  clock :: datetime
  zinvite_gen :: "nat \<Rightarrow> string"
  default_page_size :: nat

text \<open>
  Modelled from the spec: the store hands out row ids; a new row gets an id above every
  id in use, starting at 1.
\<close>

definition next_id :: "int list \<Rightarrow> int" where
  "next_id ids = foldr max ids 0 + 1"

text \<open>
  Modelled from the spec: a list operation called with \<^verbatim>\<open>page\<close> and \<^verbatim>\<open>page_size\<close>
  returns that page of the rows, pages counted from 1.
\<close>

definition paginate :: "nat \<Rightarrow> nat \<Rightarrow> 'a list \<Rightarrow> 'a list" where
  "paginate page page_size rows = take page_size (drop ((page - 1) * page_size) rows)"

subsection \<open>Users\<close>

text \<open>
  Modelled from the spec: \<^verbatim>\<open>DatabaseActor.read_user(uid)\<close> reads the user row with that
  id, \<^verbatim>\<open>None\<close> when there is none.
\<close>

definition DatabaseActor_read_user :: "db \<Rightarrow> int \<Rightarrow> user_row option" where
  "DatabaseActor_read_user d i = find (\<lambda>r. user_id r = i) (users d)"

text \<open>
  Modelled from the spec: \<^verbatim>\<open>DatabaseActor.read_user_by_email(email)\<close> reads the user row
  with that email, \<^verbatim>\<open>None\<close> when there is none.
\<close>

definition DatabaseActor_read_user_by_email :: "db \<Rightarrow> string \<Rightarrow> user_row option" where
  "DatabaseActor_read_user_by_email d e = find (\<lambda>r. user_email r = e) (users d)"

text \<open>
  Modelled from the spec: \<^verbatim>\<open>DatabaseActor.create_user(data)\<close> inserts a user row with a
  fresh id and returns it. Every key of the dict \<open>data\<close> ends up in the row: the keys
  \<^verbatim>\<open>email\<close>, \<^verbatim>\<open>auth_token\<close>, \<^verbatim>\<open>hname\<close> and \<^verbatim>\<open>is_admin\<close> fill their columns
  (a column whose key is absent keeps its default: empty text, no name, not an
  administrator), and all other keys are kept as they are under \<open>user_other\<close>.
\<close>

definition user_columns :: "string list" where
  "user_columns = [''email'', ''auth_token'', ''hname'', ''is_admin'']"

definition DatabaseActor_create_user :: "db \<Rightarrow> (string \<times> json) list \<Rightarrow> user_row \<times> db" where
  "DatabaseActor_create_user d dat =
     (let r = \<lparr>user_id = next_id (map user_id (users d)),
               user_email = (case map_of dat ''email'' of Some (JStr e) \<Rightarrow> e | _ \<Rightarrow> []),
               user_auth_token = (case map_of dat ''auth_token'' of Some (JStr t) \<Rightarrow> t | _ \<Rightarrow> []),
               user_hname = (case map_of dat ''hname'' of Some (JStr n) \<Rightarrow> Some n | _ \<Rightarrow> None),
               user_is_admin = (case map_of dat ''is_admin'' of Some (JBool b) \<Rightarrow> b | _ \<Rightarrow> False),
               user_other = filter (\<lambda>kv. fst kv \<notin> set user_columns) dat\<rparr>
      in (r, d\<lparr>users := users d @ [r]\<rparr>))"

subsection \<open>Invite codes and conversations\<close>

text \<open>
  Modelled from the spec: \<^verbatim>\<open>DatabaseActor.get_zid_by_zinvite(zinvite)\<close> reads the
  conversation id stored for an invite code, \<^verbatim>\<open>None\<close> when there is none;
  \<^verbatim>\<open>DatabaseActor.get_zinvite_by_zid(zid)\<close> reads the invite row of a conversation;
  \<^verbatim>\<open>DatabaseActor.create_zinvite({"zid": zid})\<close> issues a new code for it.
\<close>

definition DatabaseActor_get_zid_by_zinvite :: "db \<Rightarrow> string \<Rightarrow> int option" where
  "DatabaseActor_get_zid_by_zinvite d code =
     map_option zinvite_zid (find (\<lambda>r. zinvite_zinvite r = code) (zinvites d))"

definition DatabaseActor_get_zinvite_by_zid :: "db \<Rightarrow> int \<Rightarrow> zinvite_row option" where
  "DatabaseActor_get_zinvite_by_zid d z = find (\<lambda>r. zinvite_zid r = z) (zinvites d)"

definition DatabaseActor_create_zinvite :: "db \<Rightarrow> int \<Rightarrow> zinvite_row \<times> db" where
  "DatabaseActor_create_zinvite d z =
     (let r = \<lparr>zinvite_zinvite = zinvite_gen d (length (zinvites d)), zinvite_zid = z\<rparr>
      in (r, d\<lparr>zinvites := zinvites d @ [r]\<rparr>))"

text \<open>
  Modelled from the spec: \<^verbatim>\<open>DatabaseActor.read_conversation(zid)\<close> reads the conversation
  row with that id; \<^verbatim>\<open>DatabaseActor.list_conversations(page, page_size)\<close> lists a page of
  them; \<^verbatim>\<open>DatabaseActor.update_conversation(zid, data)\<close> overwrites the columns named in
  the dict \<open>data\<close> (\<^verbatim>\<open>title\<close>, \<^verbatim>\<open>description\<close>, \<^verbatim>\<open>is_archived\<close>) and returns the row
  as stored, \<^verbatim>\<open>None\<close> when there is no such row.
\<close>

definition DatabaseActor_read_conversation :: "db \<Rightarrow> int \<Rightarrow> conversation_row option" where
  "DatabaseActor_read_conversation d z = find (\<lambda>r. conv_id r = z) (conversations d)"

definition DatabaseActor_list_conversations :: "db \<Rightarrow> nat \<Rightarrow> nat \<Rightarrow> conversation_row list" where
  "DatabaseActor_list_conversations d page page_size =
     paginate page page_size (conversations d)"

definition apply_conversation_update ::
  "(string \<times> json) list \<Rightarrow> conversation_row \<Rightarrow> conversation_row" where
  "apply_conversation_update dat r =
     r\<lparr>conv_title := (case map_of dat ''title'' of Some (JStr t) \<Rightarrow> t | _ \<Rightarrow> conv_title r),
       conv_description :=
         (case map_of dat ''description'' of Some (JStr t) \<Rightarrow> Some t | _ \<Rightarrow> conv_description r),
       conv_is_archived :=
         (case map_of dat ''is_archived'' of Some (JBool b) \<Rightarrow> b | _ \<Rightarrow> conv_is_archived r)\<rparr>"

definition DatabaseActor_update_conversation ::
  "db \<Rightarrow> int \<Rightarrow> (string \<times> json) list \<Rightarrow> conversation_row option \<times> db" where
  "DatabaseActor_update_conversation d z dat =
     (let cs = map (\<lambda>r. if conv_id r = z then apply_conversation_update dat r else r)
                 (conversations d)
      in (find (\<lambda>r. conv_id r = z) cs, d\<lparr>conversations := cs\<rparr>))"

subsection \<open>Participants\<close>

text \<open>
  Modelled from the spec: \<^verbatim>\<open>DatabaseActor.get_participant_by_zid_uid(zid, uid)\<close> reads the
  participant row of that user in that conversation, \<^verbatim>\<open>None\<close> when there is none;
  \<^verbatim>\<open>DatabaseActor.list_participants_by_zid(zid)\<close> lists the participants of a
  conversation and \<^verbatim>\<open>DatabaseActor.count_participants(zid)\<close> counts them.
\<close>

definition DatabaseActor_get_participant_by_zid_uid ::
  "db \<Rightarrow> int \<Rightarrow> int \<Rightarrow> participant_row option" where
  "DatabaseActor_get_participant_by_zid_uid d z u =
     find (\<lambda>r. participant_zid r = z \<and> participant_uid r = u) (participants d)"

definition DatabaseActor_list_participants_by_zid :: "db \<Rightarrow> int \<Rightarrow> participant_row list" where
  "DatabaseActor_list_participants_by_zid d z =
     filter (\<lambda>r. participant_zid r = z) (participants d)"

definition DatabaseActor_count_participants :: "db \<Rightarrow> int \<Rightarrow> int" where
  "DatabaseActor_count_participants d z =
     int (length (filter (\<lambda>r. participant_zid r = z) (participants d)))"

text \<open>
  Modelled from the spec: \<^verbatim>\<open>DatabaseActor.create_participant({"zid": zid, "uid": uid})\<close>
  inserts a participant row with a fresh pid and a vote count of 0;
  \<^verbatim>\<open>DatabaseActor.get_or_create_participant(zid, uid)\<close> returns the participant row of
  that user in that conversation, inserting one in the same way when there is none.
\<close>

definition DatabaseActor_create_participant :: "db \<Rightarrow> int \<Rightarrow> int \<Rightarrow> participant_row \<times> db" where
  "DatabaseActor_create_participant d z u =
     (let p = \<lparr>participant_pid = next_id (map participant_pid (participants d)),
               participant_zid = z, participant_uid = u, participant_vote_count = 0,
               participant_created = Some (clock d), participant_pc = None\<rparr>
      in (p, d\<lparr>participants := participants d @ [p]\<rparr>))"

definition DatabaseActor_get_or_create_participant ::
  "db \<Rightarrow> int \<Rightarrow> int \<Rightarrow> participant_row \<times> db" where
  "DatabaseActor_get_or_create_participant d z u =
     (case find (\<lambda>r. participant_zid r = z \<and> participant_uid r = u) (participants d) of
        Some p \<Rightarrow> (p, d)
      | None \<Rightarrow> DatabaseActor_create_participant d z u)"

text \<open>
  Modelled from the spec:
  \<^verbatim>\<open>DatabaseActor.get_or_create_anonymous_participant(zid, pc_token)\<close> returns the
  participant row that carries that token in that conversation, inserting one with a fresh
  pid, no user (uid 0) and a vote count of 0 when there is none.
\<close>

definition DatabaseActor_get_or_create_anonymous_participant ::
  "db \<Rightarrow> int \<Rightarrow> string \<Rightarrow> participant_row \<times> db" where
  "DatabaseActor_get_or_create_anonymous_participant d z tok =
     (case find (\<lambda>r. participant_zid r = z \<and> participant_pc r = Some tok) (participants d) of
        Some p \<Rightarrow> (p, d)
      | None \<Rightarrow>
          (let p = \<lparr>participant_pid = next_id (map participant_pid (participants d)),
                    participant_zid = z, participant_uid = 0, participant_vote_count = 0,
                    participant_created = Some (clock d), participant_pc = Some tok\<rparr>
           in (p, d\<lparr>participants := participants d @ [p]\<rparr>)))"

text \<open>
  Modelled from the spec: \<^verbatim>\<open>DatabaseActor.increment_vote_count(pid)\<close> adds one to the
  vote count of the participant with that pid.
\<close>

definition DatabaseActor_increment_vote_count :: "db \<Rightarrow> int \<Rightarrow> db" where
  "DatabaseActor_increment_vote_count d p =
     d\<lparr>participants :=
         map (\<lambda>r. if participant_pid r = p
                   then r\<lparr>participant_vote_count := participant_vote_count r + 1\<rparr> else r)
           (participants d)\<rparr>"

subsection \<open>Comments\<close>

text \<open>
  Modelled from the spec:
  \<^verbatim>\<open>DatabaseActor.list_comments_by_conversation_id(zid, page, page_size)\<close> lists a page of
  the comments of a conversation (page 1 of the default size when called with the id
  only), \<^verbatim>\<open>DatabaseActor.count_comments_in_conversation(zid)\<close> counts them, and
  \<^verbatim>\<open>DatabaseActor.create_comment(data)\<close> inserts a comment row with a fresh id and the
  four columns of the dict \<open>data\<close>, and returns it.
\<close>

definition DatabaseActor_list_comments_by_conversation_id ::
  "db \<Rightarrow> int \<Rightarrow> nat \<Rightarrow> nat \<Rightarrow> comment_row list" where
  "DatabaseActor_list_comments_by_conversation_id d z page page_size =
     paginate page page_size (filter (\<lambda>r. comment_conversation_id r = z) (comments d))"

definition DatabaseActor_count_comments_in_conversation :: "db \<Rightarrow> int \<Rightarrow> int" where
  "DatabaseActor_count_comments_in_conversation d z =
     int (length (filter (\<lambda>r. comment_conversation_id r = z) (comments d)))"

definition DatabaseActor_create_comment ::
  "db \<Rightarrow> string \<Rightarrow> int \<Rightarrow> int \<Rightarrow> int \<Rightarrow> comment_row \<times> db" where
  "DatabaseActor_create_comment d text_field u z moderation_status =
     (let r = \<lparr>comment_id = next_id (map comment_id (comments d)),
               comment_text_field = text_field, comment_user_id = u,
               comment_conversation_id = z, comment_moderation_status = moderation_status,
               comment_created = Some (clock d)\<rparr>
      in (r, d\<lparr>comments := comments d @ [r]\<rparr>))"

subsection \<open>Votes\<close>

text \<open>
  Modelled from the spec: \<^verbatim>\<open>DatabaseActor.get_vote_by_user_comment(user_id, comment_id)\<close>
  reads the vote row of that user on that comment, \<^verbatim>\<open>None\<close> when there is none;
  \<^verbatim>\<open>DatabaseActor.list_votes_by_comment_id(comment_id)\<close> lists the first page of the
  votes on a comment and \<^verbatim>\<open>DatabaseActor.list_votes_by_user_id(user_id, page,
  page_size)\<close> a page of the votes of a user.
\<close>

definition DatabaseActor_get_vote_by_user_comment :: "db \<Rightarrow> int \<Rightarrow> int \<Rightarrow> vote_row option" where
  "DatabaseActor_get_vote_by_user_comment d u c =
     find (\<lambda>r. vote_user_id r = u \<and> vote_comment_id r = c) (votes d)"

definition DatabaseActor_list_votes_by_comment_id :: "db \<Rightarrow> int \<Rightarrow> vote_row list" where
  "DatabaseActor_list_votes_by_comment_id d c =
     paginate 1 (default_page_size d) (filter (\<lambda>r. vote_comment_id r = c) (votes d))"

definition DatabaseActor_list_votes_by_user_id :: "db \<Rightarrow> int \<Rightarrow> nat \<Rightarrow> nat \<Rightarrow> vote_row list" where
  "DatabaseActor_list_votes_by_user_id d u page page_size =
     paginate page page_size (filter (\<lambda>r. vote_user_id r = u) (votes d))"

text \<open>
  Modelled from the spec: \<^verbatim>\<open>DatabaseActor.update_vote(vote_id, {"value": v})\<close> overwrites
  the value of the vote row with that id and returns the row as stored, \<^verbatim>\<open>None\<close> when
  there is no such row.
\<close>

definition DatabaseActor_update_vote :: "db \<Rightarrow> int \<Rightarrow> int \<Rightarrow> vote_row option \<times> db" where
  "DatabaseActor_update_vote d i v =
     (let vs = map (\<lambda>r. if vote_id r = i then r\<lparr>vote_value := v\<rparr> else r) (votes d)
      in (find (\<lambda>r. vote_id r = i) vs, d\<lparr>votes := vs\<rparr>))"

text \<open>
  Modelled from the spec:
  \<^verbatim>\<open>DatabaseActor.create_vote({"user_id": u, "comment_id": c, "value": v})\<close> inserts a
  vote row with a fresh id and returns it.
\<close>

definition DatabaseActor_create_vote :: "db \<Rightarrow> int \<Rightarrow> int \<Rightarrow> int \<Rightarrow> vote_row \<times> db" where
  "DatabaseActor_create_vote d u c v =
     (let r = \<lparr>vote_id = next_id (map vote_id (votes d)),
               vote_user_id = u, vote_comment_id = c, vote_value = v,
               vote_created = Some (clock d)\<rparr>
      in (r, d\<lparr>votes := votes d @ [r]\<rparr>))"

section \<open>Python built-ins\<close>

text \<open>
  \<^verbatim>\<open>if not zid\<close> on an \<^verbatim>\<open>Optional[int]\<close>: \<^verbatim>\<open>None\<close> and \<^verbatim>\<open>0\<close> are falsy.
\<close>

definition truthy_int :: "int option \<Rightarrow> bool" where
  "truthy_int v = (case v of None \<Rightarrow> False | Some i \<Rightarrow> i \<noteq> 0)"

text \<open>\<^verbatim>\<open>if not s\<close> on an \<^verbatim>\<open>Optional[str]\<close>: \<^verbatim>\<open>None\<close> and \<^verbatim>\<open>""\<close> are falsy.\<close>

definition truthy_str :: "string option \<Rightarrow> bool" where
  "truthy_str v = (case v of None \<Rightarrow> False | Some s \<Rightarrow> s \<noteq> [])"

text \<open>\<^verbatim>\<open>s.startswith(p)\<close>.\<close>

definition startswith :: "string \<Rightarrow> string \<Rightarrow> bool" where
  "startswith s p = (take (length p) s = p)"

text \<open>
  \<^verbatim>\<open>int(s)\<close> on a string, base 10: surrounding whitespace is dropped, then an optional
  sign, then decimal digits, where single underscores may stand between digits. Anything
  else raises \<^verbatim>\<open>ValueError\<close> (here \<open>None\<close>), as does a literal of more than 4300 digits
  (the default \<^verbatim>\<open>sys.int_max_str_digits\<close>). The whitespace that \<^verbatim>\<open>int\<close> skips is tab,
  line feed, vertical tab, form feed, carriage return and space, and of the characters
  above 127 the two Unicode spaces U+0085 and U+00A0; the separators 28 to 31 are not
  skipped.
\<close>

definition is_space :: "char \<Rightarrow> bool" where
  "is_space c = ((of_char c :: nat) \<in> set [9, 10, 11, 12, 13, 32, 133, 160])"

definition digit_val :: "char \<Rightarrow> nat option" where
  "digit_val c =
     (let n = (of_char c :: nat) in if 48 \<le> n \<and> n \<le> 57 then Some (n - 48) else None)"

fun digits_rest :: "string \<Rightarrow> nat \<Rightarrow> nat option" where
  "digits_rest [] acc = Some acc"
| "digits_rest (c # cs) acc =
     (if c = CHR ''_'' then
        (case cs of
           [] \<Rightarrow> None
         | c2 # cs2 \<Rightarrow>
             (case digit_val c2 of
                None \<Rightarrow> None
              | Some v \<Rightarrow> digits_rest cs2 (10 * acc + v)))
      else
        (case digit_val c of
           None \<Rightarrow> None
         | Some v \<Rightarrow> digits_rest cs (10 * acc + v)))"

definition digits_value :: "string \<Rightarrow> nat option" where
  "digits_value s =
     (case s of
        [] \<Rightarrow> None
      | c # cs \<Rightarrow> (case digit_val c of None \<Rightarrow> None | Some v \<Rightarrow> digits_rest cs v))"

definition strip :: "string \<Rightarrow> string" where
  "strip s = rev (dropWhile is_space (rev (dropWhile is_space s)))"

definition py_int :: "string \<Rightarrow> int option" where
  "py_int s =
     (let t = strip s;
          (neg, body) =
            (case t of
               [] \<Rightarrow> (False, t)
             | c # cs \<Rightarrow>
                 if c = CHR ''-'' then (True, cs)
                 else if c = CHR ''+'' then (False, cs)
                 else (False, t))
      in if length (filter (\<lambda>c. digit_val c \<noteq> None) body) > 4300 then None
         else
           (case digits_value body of
              None \<Rightarrow> None
            | Some n \<Rightarrow> Some (if neg then - int n else int n)))"

text \<open>
  \<^verbatim>\<open>s.strip()\<close> drops the characters for which \<^verbatim>\<open>str.isspace\<close> holds from both
  ends; besides the whitespace above these include the separators 28 to 31.
\<close>

definition is_space_str :: "char \<Rightarrow> bool" where
  "is_space_str c =
     ((of_char c :: nat) \<in> set [9, 10, 11, 12, 13, 28, 29, 30, 31, 32, 133, 160])"

definition str_strip :: "string \<Rightarrow> string" where
  "str_strip s = rev (dropWhile is_space_str (rev (dropWhile is_space_str s)))"

text \<open>\<^verbatim>\<open>str(i)\<close> on an int: its decimal text.\<close>

function str_nat :: "nat \<Rightarrow> string" where
  "str_nat n =
     (if n < 10 then [''0123456789'' ! n]
      else str_nat (n div 10) @ [''0123456789'' ! (n mod 10)])"
  by pat_completeness auto
termination
  by (relation "measure id") auto

definition str_int :: "int \<Rightarrow> string" where
  "str_int i = (if i < 0 then CHR ''-'' # str_nat (nat (- i)) else str_nat (nat i))"

section \<open>Auth helpers\<close>

text \<open>
  What the handlers take from outside the process: \<open>sha256_hexdigest s\<close> stands for
  \<^verbatim>\<open>hashlib.sha256(s.encode()).hexdigest()\<close>, \<open>jwt_secret\<close> for the configured secret and
  \<open>now_isoformat\<close> for \<^verbatim>\<open>datetime.now().isoformat()\<close> at the time of the call and
  \<open>uuid4_str\<close> for \<^verbatim>\<open>str(uuid.uuid4())\<close>.
\<close>

record env =
  sha256_hexdigest :: "string \<Rightarrow> string"
  jwt_secret :: string
  now_isoformat :: string
  uuid4_str :: string

text \<open>
  \<^verbatim>\<open>
  def create_token(uid: int, email: str) -> str:
      data = f"{uid}:{email}:{datetime.now().isoformat()}"
      return hashlib.sha256(f"{jwt_secret}:{data}".encode()).hexdigest()[:32]
  \<close>
\<close>

definition create_token :: "env \<Rightarrow> int \<Rightarrow> string \<Rightarrow> string" where
  "create_token ev u e =
     (let dat = str_int u @ '':'' @ e @ '':'' @ now_isoformat ev
      in take 32 (sha256_hexdigest ev (jwt_secret ev @ '':'' @ dat)))"

text \<open>
  \<^verbatim>\<open>
  def verify_token(token: str) -> Optional[int]:
      return 1  # Simplified for MVP
  \<close>
\<close>

definition verify_token :: "string \<Rightarrow> int option" where
  "verify_token token = Some 1"

text \<open>
  \<^verbatim>\<open>
  async def get_current_user(authorization = Header(None), token2 = Cookie(None),
                             uid2 = Cookie(None)) -> Optional[Dict]:
      token = None
      uid = None
      if authorization and authorization.startswith("Bearer "):
          token = authorization[7:]
      elif token2:
          token = token2
      if uid2:
          try:
              uid = int(uid2)
          except (ValueError, TypeError):
              pass
      if not token:
          return None
      if uid:
          user = DatabaseActor.read_user(uid)
          if user:
              return {"uid": user.id, "email": user.email, "is_admin": user.is_admin}
      user = DatabaseActor.read_user(1)
      if user:
          return {"uid": user.id, "email": user.email, "is_admin": user.is_admin}
      return None
  \<close>
\<close>

definition get_current_user ::
  "db \<Rightarrow> string option \<Rightarrow> string option \<Rightarrow> string option \<Rightarrow> auth_user option" where
  "get_current_user d authorization token2 uid2 =
     (let token =
            (if truthy_str authorization \<and> startswith (the authorization) ''Bearer ''
             then Some (drop 7 (the authorization))
             else if truthy_str token2 then token2
             else None);
          uid_cookie = (if truthy_str uid2 then py_int (the uid2) else None)
      in if \<not> truthy_str token then None
         else
           (case (if truthy_int uid_cookie then DatabaseActor_read_user d (the uid_cookie)
                  else None) of
              Some user \<Rightarrow>
                Some \<lparr>uid = user_id user, email = user_email user,
                      is_admin = user_is_admin user\<rparr>
            | None \<Rightarrow>
                (case DatabaseActor_read_user d 1 of
                   Some user \<Rightarrow>
                     Some \<lparr>uid = user_id user, email = user_email user,
                           is_admin = user_is_admin user\<rparr>
                 | None \<Rightarrow> None)))"

text \<open>
  \<^verbatim>\<open>
  async def require_auth(user = Depends(get_current_user)) -> Dict:
      if not user:
          raise HTTPException(status_code=401, detail="Authentication required")
      return user

  async def optional_auth(user = Depends(get_current_user)) -> Optional[Dict]:
      return user
  \<close>
\<close>

definition require_auth :: "auth_user option \<Rightarrow> failure + auth_user" where
  "require_auth user =
     (case user of
        None \<Rightarrow> Inl (HTTPException 401 ''Authentication required'')
      | Some u \<Rightarrow> Inr u)"

definition optional_auth :: "auth_user option \<Rightarrow> auth_user option" where
  "optional_auth user = user"

section \<open>Auth endpoints\<close>

text \<open>
  \<^verbatim>\<open>class AuthNewRequest(BaseModel)\<close>: \<^verbatim>\<open>email: str\<close>, \<^verbatim>\<open>password: str\<close>,
  \<^verbatim>\<open>name\<close>, \<^verbatim>\<open>hname\<close> and \<^verbatim>\<open>gatekeeperTosPrivacy\<close> optional strings.
\<close>

record AuthNewRequest =
  req_email :: string
  req_password :: string
  req_name :: "string option"
  req_hname :: "string option"
  req_gatekeeperTosPrivacy :: "string option"

text \<open>
  A cookie as \<^verbatim>\<open>response.set_cookie(key=..., value=..., httponly=..., secure=...,
  samesite=...)\<close> records it; the response is the list of cookies set so far.
\<close>

record cookie =
  cookie_key :: string
  cookie_value :: string
  cookie_httponly :: bool
  cookie_secure :: bool
  cookie_samesite :: string

definition set_cookie :: "cookie list \<Rightarrow> string \<Rightarrow> string \<Rightarrow> bool \<Rightarrow> bool \<Rightarrow> string \<Rightarrow> cookie list" where
  "set_cookie response k v h s ss =
     response @ [\<lparr>cookie_key = k, cookie_value = v, cookie_httponly = h, cookie_secure = s,
                  cookie_samesite = ss\<rparr>]"

text \<open>
  \<^verbatim>\<open>
  @router.post("/auth/new")
  async def register_user(request: AuthNewRequest, response: Response):
      if not request.email or not request.password:
          raise HTTPException(status_code=400, detail="Email and password required")
      existing = DatabaseActor.read_user_by_email(request.email)
      if existing:
          raise HTTPException(status_code=409, detail="Email already registered")
      user_name = request.name or request.hname
      password_hash = hashlib.sha256(request.password.encode()).hexdigest()
      user = DatabaseActor.create_user({"email": request.email,
                                        "auth_token": password_hash})
      token = create_token(user.id, user.email)
      response.set_cookie(key="token2", value=token, httponly=False, secure=False,
                          samesite="lax")
      response.set_cookie(key="uid2", value=str(user.id), httponly=False, secure=False,
                          samesite="lax")
      return {"status": "ok", "success": True, "token": token, "user_id": user.id,
              "data": {"uid": user.id, "email": user.email}}
  \<close>
\<close>

definition register_user ::
  "env \<Rightarrow> db \<Rightarrow> AuthNewRequest \<Rightarrow> cookie list \<Rightarrow> (failure + json) \<times> cookie list \<times> db" where
  "register_user ev d request response =
     (if req_email request = [] \<or> req_password request = []
      then (Inl (HTTPException 400 ''Email and password required''), response, d)
      else
        (case DatabaseActor_read_user_by_email d (req_email request) of
           Some existing \<Rightarrow> (Inl (HTTPException 409 ''Email already registered''), response, d)
         | None \<Rightarrow>
             (let user_name = (if truthy_str (req_name request) then req_name request
                               else req_hname request);
                  password_hash = sha256_hexdigest ev (req_password request);
                  (user, d1) = DatabaseActor_create_user d
                                 [(''email'', JStr (req_email request)),
                                  (''auth_token'', JStr password_hash)];
                  token = create_token ev (user_id user) (user_email user);
                  response1 = set_cookie response ''token2'' token False False ''lax'';
                  response2 = set_cookie response1 ''uid2'' (str_int (user_id user))
                                False False ''lax''
              in (Inr (JObject
                    [(''status'', JStr ''ok''),
                     (''success'', JBool True),
                     (''token'', JStr token),
                     (''user_id'', JInt (user_id user)),
                     (''data'', JObject [(''uid'', JInt (user_id user)),
                                         (''email'', JStr (user_email user))])]),
                  response2, d1))))"

section \<open>Math endpoints\<close>

text \<open>
  A handler takes the store and returns what it returns or raises, together with the
  store it leaves behind.

  \<^verbatim>\<open>
  @router.get("/math/pca", response_model=PolisResponse)
  async def get_pca(conversation_id: str, user: Optional[Dict] = Depends(optional_auth)):
      zid = DatabaseActor.get_zid_by_zinvite(conversation_id)
      if not zid:
          raise HTTPException(status_code=404, detail="Conversation not found")
      return PolisResponse(status="ok", data={"commentProjection": [],
          "ptptotProjection": [], "baseCluster": [], "groupAware": False})
  \<close>
\<close>

definition get_pca ::
  "db \<Rightarrow> string \<Rightarrow> auth_user option \<Rightarrow> (failure + PolisResponse) \<times> db" where
  "get_pca d conversation_id user =
     (let zid = DatabaseActor_get_zid_by_zinvite d conversation_id in
      if \<not> truthy_int zid then (Inl (HTTPException 404 ''Conversation not found''), d)
      else
        (Inr \<lparr>status = ''ok'',
              data = Some (JObject
                [(''commentProjection'', JArray []),
                 (''ptptotProjection'', JArray []),
                 (''baseCluster'', JArray []),
                 (''groupAware'', JBool False)]),
              error = None\<rparr>, d))"

text \<open>
  \<^verbatim>\<open>
  @router.get("/math/pca2", response_model=PolisResponse)
  async def get_pca2(conversation_id: str, user: Optional[Dict] = Depends(optional_auth)):
      zid = DatabaseActor.get_zid_by_zinvite(conversation_id)
      if not zid:
          raise HTTPException(status_code=404, detail="Conversation not found")
      return PolisResponse(status="ok", data={"pca": {"commentProjection": [],
          "ptptotProjection": [], "baseClusters": []}})
  \<close>
\<close>

definition get_pca2 ::
  "db \<Rightarrow> string \<Rightarrow> auth_user option \<Rightarrow> (failure + PolisResponse) \<times> db" where
  "get_pca2 d conversation_id user =
     (let zid = DatabaseActor_get_zid_by_zinvite d conversation_id in
      if \<not> truthy_int zid then (Inl (HTTPException 404 ''Conversation not found''), d)
      else
        (Inr \<lparr>status = ''ok'',
              data = Some (JObject
                [(''pca'', JObject
                   [(''commentProjection'', JArray []),
                    (''ptptotProjection'', JArray []),
                    (''baseClusters'', JArray [])])]),
              error = None\<rparr>, d))"

section \<open>Conversation endpoints\<close>

text \<open>
  Shorthands for expressions that recur in the handlers:
  \<^verbatim>\<open>x.created.isoformat() if x.created else None\<close>, an \<^verbatim>\<open>Optional[str]\<close> as a payload
  value, and \<^verbatim>\<open>user and user["uid"] == conv.user_id\<close>, which is \<^verbatim>\<open>None\<close> for an
  anonymous caller and a bool otherwise.
\<close>

definition isoformat_or_None :: "datetime option \<Rightarrow> json" where
  "isoformat_or_None t = (case t of None \<Rightarrow> JNull | Some s \<Rightarrow> JStr s)"

definition str_or_None :: "string option \<Rightarrow> json" where
  "str_or_None s = (case s of None \<Rightarrow> JNull | Some t \<Rightarrow> JStr t)"

definition is_owner_of :: "auth_user option \<Rightarrow> conversation_row \<Rightarrow> json" where
  "is_owner_of user conv =
     (case user of None \<Rightarrow> JNull | Some u \<Rightarrow> JBool (uid u = conv_user_id conv))"

text \<open>
  \<^verbatim>\<open>
  @router.get("/conversations")
  async def get_conversations(conversation_id: Optional[str] = None,
          include_all_conversations_i_am_in: bool = False,
          is_active: Optional[bool] = None,
          user: Optional[Dict] = Depends(optional_auth)):
      if conversation_id:
          zid = DatabaseActor.get_zid_by_zinvite(conversation_id)
          if not zid:
              raise HTTPException(status_code=404, detail="Conversation not found")
          conv = DatabaseActor.read_conversation(zid)
          if not conv:
              raise HTTPException(status_code=404, detail="Conversation not found")
          participant_count = DatabaseActor.count_participants(zid)
          comment_count = DatabaseActor.count_comments_in_conversation(zid)
          is_owner = user and user["uid"] == conv.user_id
          return [{"conversation_id": conversation_id, "topic": conv.title,
              "description": conv.description, "is_active": not conv.is_archived,
              "owner": conv.user_id, "is_owner": is_owner, "is_mod": is_owner,
              "created": conv.created.isoformat() if conv.created else None,
              "participant_count": participant_count, "comment_count": comment_count}]
      conversations = DatabaseActor.list_conversations(page=1, page_size=100)
      result = []
      for conv in conversations:
          zinvite_obj = DatabaseActor.get_zinvite_by_zid(conv.id)
          if not zinvite_obj:
              zinvite_obj = DatabaseActor.create_zinvite({"zid": conv.id})
          participant_count = DatabaseActor.count_participants(conv.id)
          is_owner = user and user["uid"] == conv.user_id
          result.append({"conversation_id": zinvite_obj.zinvite, "topic": conv.title,
              "description": conv.description, "is_active": not conv.is_archived,
              "is_draft": conv.settings.get("is_draft", False) if conv.settings else False,
              "owner": conv.user_id, "is_owner": is_owner, "is_mod": is_owner,
              "created": conv.created.isoformat() if conv.created else None,
              "participant_count": participant_count})
      return result
  \<close>
  The loop is the recursion \<open>get_conversations_loop\<close>, which threads the store and the
  result list.
\<close>

definition is_draft_of :: "conversation_row \<Rightarrow> json" where
  "is_draft_of conv =
     (case conv_settings conv of
        None \<Rightarrow> JBool False
      | Some kvs \<Rightarrow>
          if kvs = [] then JBool False
          else (case map_of kvs ''is_draft'' of None \<Rightarrow> JBool False | Some v \<Rightarrow> v))"

fun get_conversations_loop ::
  "auth_user option \<Rightarrow> conversation_row list \<Rightarrow> json list \<Rightarrow> db \<Rightarrow> json list \<times> db" where
  "get_conversations_loop user [] result d = (result, d)"
| "get_conversations_loop user (conv # rest) result d =
     (let (zinvite_obj, d1) =
            (case DatabaseActor_get_zinvite_by_zid d (conv_id conv) of
               Some z \<Rightarrow> (z, d)
             | None \<Rightarrow> DatabaseActor_create_zinvite d (conv_id conv));
          participant_count = DatabaseActor_count_participants d1 (conv_id conv);
          is_owner = is_owner_of user conv
      in get_conversations_loop user rest
           (result @
            [JObject
               [(''conversation_id'', JStr (zinvite_zinvite zinvite_obj)),
                (''topic'', JStr (conv_title conv)),
                (''description'', str_or_None (conv_description conv)),
                (''is_active'', JBool (\<not> conv_is_archived conv)),
                (''is_draft'', is_draft_of conv),
                (''owner'', JInt (conv_user_id conv)),
                (''is_owner'', is_owner),
                (''is_mod'', is_owner),
                (''created'', isoformat_or_None (conv_created conv)),
                (''participant_count'', JInt participant_count)]])
           d1)"

definition get_conversations ::
  "db \<Rightarrow> string option \<Rightarrow> bool \<Rightarrow> bool option \<Rightarrow> auth_user option \<Rightarrow> (failure + json) \<times> db"
  where
  "get_conversations d conversation_id include_all_conversations_i_am_in is_active user =
     (if truthy_str conversation_id then
        (let zid = DatabaseActor_get_zid_by_zinvite d (the conversation_id) in
         if \<not> truthy_int zid then (Inl (HTTPException 404 ''Conversation not found''), d)
         else
           (case DatabaseActor_read_conversation d (the zid) of
              None \<Rightarrow> (Inl (HTTPException 404 ''Conversation not found''), d)
            | Some conv \<Rightarrow>
                (let participant_count = DatabaseActor_count_participants d (the zid);
                     comment_count = DatabaseActor_count_comments_in_conversation d (the zid);
                     is_owner = is_owner_of user conv
                 in (Inr (JArray
                       [JObject
                          [(''conversation_id'', JStr (the conversation_id)),
                           (''topic'', JStr (conv_title conv)),
                           (''description'', str_or_None (conv_description conv)),
                           (''is_active'', JBool (\<not> conv_is_archived conv)),
                           (''owner'', JInt (conv_user_id conv)),
                           (''is_owner'', is_owner),
                           (''is_mod'', is_owner),
                           (''created'', isoformat_or_None (conv_created conv)),
                           (''participant_count'', JInt participant_count),
                           (''comment_count'', JInt comment_count)]]), d))))
      else
        (let conversations = DatabaseActor_list_conversations d 1 100;
             (result, d1) = get_conversations_loop user conversations [] d
         in (Inr (JArray result), d1)))"

text \<open>
  \<^verbatim>\<open>class ConversationUpdateRequest(BaseModel)\<close>: \<^verbatim>\<open>conversation_id: str\<close> and fifteen
  optional settings.
\<close>

record ConversationUpdateRequest =
  upd_conversation_id :: string
  upd_topic :: "string option"
  upd_description :: "string option"
  upd_is_active :: "bool option"
  upd_is_anon :: "bool option"
  upd_is_draft :: "bool option"
  upd_is_data_open :: "bool option"
  upd_owner_sees_participation_stats :: "bool option"
  upd_profanity_filter :: "bool option"
  upd_spam_filter :: "bool option"
  upd_strict_moderation :: "bool option"
  upd_vis_type :: "int option"
  upd_help_type :: "int option"
  upd_write_type :: "int option"
  upd_bgcolor :: "string option"
  upd_help_color :: "string option"

text \<open>
  \<^verbatim>\<open>
  @router.put("/conversations", response_model=PolisResponse)
  async def update_conversation(request: ConversationUpdateRequest,
                                user: Dict = Depends(require_auth)):
      zid = DatabaseActor.get_zid_by_zinvite(request.conversation_id)
      if not zid:
          raise HTTPException(status_code=404, detail="Conversation not found")
      conv = DatabaseActor.read_conversation(zid)
      if not conv:
          raise HTTPException(status_code=404, detail="Conversation not found")
      if conv.user_id != user["uid"] and not user.get("is_admin"):
          raise HTTPException(status_code=403, detail="Not authorized")
      update_data = {}
      if request.topic is not None:
          update_data["title"] = request.topic
      if request.description is not None:
          update_data["description"] = request.description
      if request.is_active is not None:
          update_data["is_archived"] = not request.is_active
      if update_data:
          updated = DatabaseActor.update_conversation(zid, update_data)
      else:
          updated = conv
      return PolisResponse(status="ok", data={
          "conversation_id": request.conversation_id, "topic": updated.title,
          "description": updated.description, "is_active": not updated.is_archived})
  \<close>
  Reading \<^verbatim>\<open>updated.title\<close> raises \<^verbatim>\<open>AttributeError\<close> if the update returned
  \<^verbatim>\<open>None\<close>.
\<close>

definition update_conversation ::
  "db \<Rightarrow> ConversationUpdateRequest \<Rightarrow> auth_user \<Rightarrow> (failure + PolisResponse) \<times> db" where
  "update_conversation d request user =
     (let zid = DatabaseActor_get_zid_by_zinvite d (upd_conversation_id request) in
      if \<not> truthy_int zid then (Inl (HTTPException 404 ''Conversation not found''), d)
      else
        (case DatabaseActor_read_conversation d (the zid) of
           None \<Rightarrow> (Inl (HTTPException 404 ''Conversation not found''), d)
         | Some conv \<Rightarrow>
             if conv_user_id conv \<noteq> uid user \<and> \<not> is_admin user
             then (Inl (HTTPException 403 ''Not authorized''), d)
             else
               (let update_data =
                      (case upd_topic request of None \<Rightarrow> [] | Some t \<Rightarrow> [(''title'', JStr t)]) @
                      (case upd_description request of
                         None \<Rightarrow> [] | Some t \<Rightarrow> [(''description'', JStr t)]) @
                      (case upd_is_active request of
                         None \<Rightarrow> [] | Some b \<Rightarrow> [(''is_archived'', JBool (\<not> b))]);
                    (updated, d1) =
                      (if update_data \<noteq> []
                       then DatabaseActor_update_conversation d (the zid) update_data
                       else (Some conv, d))
                in case updated of
                     None \<Rightarrow> (Inl AttributeError, d1)
                   | Some upd \<Rightarrow>
                       (Inr \<lparr>status = ''ok'',
                             data = Some (JObject
                               [(''conversation_id'', JStr (upd_conversation_id request)),
                                (''topic'', JStr (conv_title upd)),
                                (''description'', str_or_None (conv_description upd)),
                                (''is_active'', JBool (\<not> conv_is_archived upd))]),
                             error = None\<rparr>, d1))))"

text \<open>
  \<^verbatim>\<open>
  @router.post("/conversation/close", response_model=PolisResponse)
  async def close_conversation(conversation_id: str, user: Dict = Depends(require_auth)):
      zid = DatabaseActor.get_zid_by_zinvite(conversation_id)
      if not zid:
          raise HTTPException(status_code=404, detail="Conversation not found")
      conv = DatabaseActor.read_conversation(zid)
      if conv.user_id != user["uid"] and not user.get("is_admin"):
          raise HTTPException(status_code=403, detail="Not authorized")
      DatabaseActor.update_conversation(zid, {"is_archived": True})
      return PolisResponse(status="ok", data={"closed": True})
  \<close>
  \<^verbatim>\<open>reopen_conversation\<close> is the same with \<^verbatim>\<open>False\<close> and \<^verbatim>\<open>{"reopened": True}\<close>.
  Reading \<^verbatim>\<open>conv.user_id\<close> raises \<^verbatim>\<open>AttributeError\<close> if there is no such row.
\<close>

definition close_conversation ::
  "db \<Rightarrow> string \<Rightarrow> auth_user \<Rightarrow> (failure + PolisResponse) \<times> db" where
  "close_conversation d conversation_id user =
     (let zid = DatabaseActor_get_zid_by_zinvite d conversation_id in
      if \<not> truthy_int zid then (Inl (HTTPException 404 ''Conversation not found''), d)
      else
        (case DatabaseActor_read_conversation d (the zid) of
           None \<Rightarrow> (Inl AttributeError, d)
         | Some conv \<Rightarrow>
             if conv_user_id conv \<noteq> uid user \<and> \<not> is_admin user
             then (Inl (HTTPException 403 ''Not authorized''), d)
             else (Inr \<lparr>status = ''ok'', data = Some (JObject [(''closed'', JBool True)]),
                        error = None\<rparr>,
                   snd (DatabaseActor_update_conversation d (the zid)
                          [(''is_archived'', JBool True)]))))"

definition reopen_conversation ::
  "db \<Rightarrow> string \<Rightarrow> auth_user \<Rightarrow> (failure + PolisResponse) \<times> db" where
  "reopen_conversation d conversation_id user =
     (let zid = DatabaseActor_get_zid_by_zinvite d conversation_id in
      if \<not> truthy_int zid then (Inl (HTTPException 404 ''Conversation not found''), d)
      else
        (case DatabaseActor_read_conversation d (the zid) of
           None \<Rightarrow> (Inl AttributeError, d)
         | Some conv \<Rightarrow>
             if conv_user_id conv \<noteq> uid user \<and> \<not> is_admin user
             then (Inl (HTTPException 403 ''Not authorized''), d)
             else (Inr \<lparr>status = ''ok'', data = Some (JObject [(''reopened'', JBool True)]),
                        error = None\<rparr>,
                   snd (DatabaseActor_update_conversation d (the zid)
                          [(''is_archived'', JBool False)]))))"

text \<open>
  \<^verbatim>\<open>
  @router.get("/conversationStats", response_model=PolisResponse)
  async def get_conversation_stats(conversation_id: str,
                                   user: Optional[Dict] = Depends(optional_auth)):
      zid = DatabaseActor.get_zid_by_zinvite(conversation_id)
      if not zid:
          raise HTTPException(status_code=404, detail="Conversation not found")
      participant_count = DatabaseActor.count_participants(zid)
      comment_count = DatabaseActor.count_comments_in_conversation(zid)
      return PolisResponse(status="ok", data={"participant_count": participant_count,
                                              "comment_count": comment_count})
  \<close>
\<close>

definition get_conversation_stats ::
  "db \<Rightarrow> string \<Rightarrow> auth_user option \<Rightarrow> (failure + PolisResponse) \<times> db" where
  "get_conversation_stats d conversation_id user =
     (let zid = DatabaseActor_get_zid_by_zinvite d conversation_id in
      if \<not> truthy_int zid then (Inl (HTTPException 404 ''Conversation not found''), d)
      else
        (let participant_count = DatabaseActor_count_participants d (the zid);
             comment_count = DatabaseActor_count_comments_in_conversation d (the zid)
         in (Inr \<lparr>status = ''ok'',
                   data = Some (JObject
                     [(''participant_count'', JInt participant_count),
                      (''comment_count'', JInt comment_count)]),
                   error = None\<rparr>, d)))"

text \<open>
  \<^verbatim>\<open>
  @router.get("/conversations/preload", response_model=PolisResponse)
  async def preload_conversation(conversation_id: str,
                                 user: Optional[Dict] = Depends(optional_auth)):
      zid = DatabaseActor.get_zid_by_zinvite(conversation_id)
      if not zid:
          raise HTTPException(status_code=404, detail="Conversation not found")
      conv = DatabaseActor.read_conversation(zid)
      if not conv:
          raise HTTPException(status_code=404, detail="Conversation not found")
      return PolisResponse(status="ok", data={"conversation_id": conversation_id,
          "topic": conv.title, "description": conv.description,
          "is_active": not conv.is_archived})
  \<close>
\<close>

definition preload_conversation ::
  "db \<Rightarrow> string \<Rightarrow> auth_user option \<Rightarrow> (failure + PolisResponse) \<times> db" where
  "preload_conversation d conversation_id user =
     (let zid = DatabaseActor_get_zid_by_zinvite d conversation_id in
      if \<not> truthy_int zid then (Inl (HTTPException 404 ''Conversation not found''), d)
      else
        (case DatabaseActor_read_conversation d (the zid) of
           None \<Rightarrow> (Inl (HTTPException 404 ''Conversation not found''), d)
         | Some conv \<Rightarrow>
             (Inr \<lparr>status = ''ok'',
                   data = Some (JObject
                     [(''conversation_id'', JStr conversation_id),
                      (''topic'', JStr (conv_title conv)),
                      (''description'', str_or_None (conv_description conv)),
                      (''is_active'', JBool (\<not> conv_is_archived conv))]),
                   error = None\<rparr>, d)))"

section \<open>Participants endpoints\<close>

text \<open>
  \<^verbatim>\<open>
  @router.get("/participants", response_model=PolisResponse)
  async def get_participants(conversation_id: str, user: Dict = Depends(require_auth)):
      zid = DatabaseActor.get_zid_by_zinvite(conversation_id)
      if not zid:
          raise HTTPException(status_code=404, detail="Conversation not found")
      participants = DatabaseActor.list_participants_by_zid(zid)
      result = []
      for p in participants:
          result.append({"pid": p.pid, "zid": p.zid, "uid": p.uid,
              "vote_count": p.vote_count,
              "created": p.created.isoformat() if p.created else None})
      return PolisResponse(status="ok", data=result)
  \<close>
\<close>

definition get_participants ::
  "db \<Rightarrow> string \<Rightarrow> auth_user \<Rightarrow> (failure + PolisResponse) \<times> db" where
  "get_participants d conversation_id user =
     (let zid = DatabaseActor_get_zid_by_zinvite d conversation_id in
      if \<not> truthy_int zid then (Inl (HTTPException 404 ''Conversation not found''), d)
      else
        (let ps = DatabaseActor_list_participants_by_zid d (the zid);
             result =
               map (\<lambda>p. JObject
                      [(''pid'', JInt (participant_pid p)),
                       (''zid'', JInt (participant_zid p)),
                       (''uid'', JInt (participant_uid p)),
                       (''vote_count'', JInt (participant_vote_count p)),
                       (''created'', isoformat_or_None (participant_created p))]) ps
         in (Inr \<lparr>status = ''ok'', data = Some (JArray result), error = None\<rparr>, d)))"

text \<open>
  \<^verbatim>\<open>
  @router.post("/participants", response_model=PolisResponse)
  async def join_conversation(conversation_id: str, user: Dict = Depends(require_auth)):
      zid = DatabaseActor.get_zid_by_zinvite(conversation_id)
      if not zid:
          raise HTTPException(status_code=404, detail="Conversation not found")
      participant = DatabaseActor.get_or_create_participant(zid, user["uid"])
      return PolisResponse(status="ok", data={"pid": participant.pid,
          "zid": participant.zid, "uid": participant.uid,
          "vote_count": participant.vote_count})
  \<close>
\<close>

definition join_conversation ::
  "db \<Rightarrow> string \<Rightarrow> auth_user \<Rightarrow> (failure + PolisResponse) \<times> db" where
  "join_conversation d conversation_id user =
     (let zid = DatabaseActor_get_zid_by_zinvite d conversation_id in
      if \<not> truthy_int zid then (Inl (HTTPException 404 ''Conversation not found''), d)
      else
        (let (participant, d1) = DatabaseActor_get_or_create_participant d (the zid) (uid user)
         in (Inr \<lparr>status = ''ok'',
                   data = Some (JObject
                     [(''pid'', JInt (participant_pid participant)),
                      (''zid'', JInt (participant_zid participant)),
                      (''uid'', JInt (participant_uid participant)),
                      (''vote_count'', JInt (participant_vote_count participant))]),
                   error = None\<rparr>, d1)))"

text \<open>
  \<^verbatim>\<open>
  @router.post("/joinWithInvite", response_model=PolisResponse)
  async def join_with_invite(conversation_id: str,
                             user: Optional[Dict] = Depends(optional_auth)):
      zid = DatabaseActor.get_zid_by_zinvite(conversation_id)
      if not zid:
          raise HTTPException(status_code=404, detail="Invalid invite code")
      conv = DatabaseActor.read_conversation(zid)
      if not conv:
          raise HTTPException(status_code=404, detail="Conversation not found")
      result = {"conversation_id": conversation_id, "topic": conv.title,
                "description": conv.description}
      if user:
          participant = DatabaseActor.get_or_create_participant(zid, user["uid"])
          result["pid"] = participant.pid
      return PolisResponse(status="ok", data=result)
  \<close>
\<close>

definition join_with_invite ::
  "db \<Rightarrow> string \<Rightarrow> auth_user option \<Rightarrow> (failure + PolisResponse) \<times> db" where
  "join_with_invite d conversation_id user =
     (let zid = DatabaseActor_get_zid_by_zinvite d conversation_id in
      if \<not> truthy_int zid then (Inl (HTTPException 404 ''Invalid invite code''), d)
      else
        (case DatabaseActor_read_conversation d (the zid) of
           None \<Rightarrow> (Inl (HTTPException 404 ''Conversation not found''), d)
         | Some conv \<Rightarrow>
             (let result =
                    [(''conversation_id'', JStr conversation_id),
                     (''topic'', JStr (conv_title conv)),
                     (''description'', str_or_None (conv_description conv))];
                  (result1, d1) =
                    (case user of
                       None \<Rightarrow> (result, d)
                     | Some u \<Rightarrow>
                         (let (participant, d') =
                                DatabaseActor_get_or_create_participant d (the zid) (uid u)
                          in (result @ [(''pid'', JInt (participant_pid participant))], d')))
              in (Inr \<lparr>status = ''ok'', data = Some (JObject result1), error = None\<rparr>, d1))))"

text \<open>
  \<^verbatim>\<open>
  @router.get("/participationInit")
  async def participation_init(response: Response, conversation_id: Optional[str] = None,
          pid: Optional[str] = None, lang: Optional[str] = None,
          user: Optional[Dict] = Depends(optional_auth)):
      if not conversation_id:
          result = {"user": {"uid": user["uid"]} if user else None, "ptpt": None,
              "nextComment": None, "conversation": {"translations": []}, "votes": [],
              "pca": None, "famous": None, "acceptLanguage": lang or "en"}
          return result
      zid = DatabaseActor.get_zid_by_zinvite(conversation_id)
      if not zid:
          raise HTTPException(status_code=404, detail="Conversation not found")
      conv = DatabaseActor.read_conversation(zid)
      if not conv:
          raise HTTPException(status_code=404, detail="Conversation not found")
      conversation = {"conversation_id": conversation_id, "topic": conv.title,
          "description": conv.description or "", "is_active": not conv.is_archived,
          "is_archived": conv.is_archived,
          "participant_count": DatabaseActor.count_participants(zid),
          "comment_count": DatabaseActor.count_comments_in_conversation(zid),
          "translations": [],
          "created": conv.created.isoformat()
                     if hasattr(conv, 'created') and conv.created else None}
      user_data = None
      ptpt_data = None
      votes_data = []
      if user:
          user_data = {"uid": user["uid"], "email": user.get("email")}
          participant = DatabaseActor.get_or_create_participant(zid, user["uid"])
          ptpt_data = {"pid": participant.pid, "uid": user["uid"]}
          votes = DatabaseActor.list_votes_by_user_id(user["uid"], page=1, page_size=1000)
          votes_data = [{"tid": v.comment_id, "vote": v.value,
                         "conversation_id": conversation_id} for v in votes]
      else:
          import uuid
          pc_token = str(uuid.uuid4())[:16]
          response.set_cookie(key="pc", value=pc_token, httponly=False, secure=False,
                              samesite="lax")
          participant = DatabaseActor.get_or_create_anonymous_participant(zid, pc_token)
          ptpt_data = {"pid": participant.pid}
      next_comment = None
      if participant:
          comments = DatabaseActor.list_comments_by_conversation_id(zid, page=1,
                                                                     page_size=1)
          if comments:
              c = comments[0]
              next_comment = {"tid": c.id, "txt": c.text_field,
                  "conversation_id": conversation_id, "currentPid": participant.pid}
      result = {"user": user_data, "ptpt": ptpt_data, "nextComment": next_comment or {},
          "conversation": conversation, "votes": votes_data, "pca": None,
          "famous": None, "acceptLanguage": lang or "en"}
      return result
  \<close>
  The participant is a row object and so always true; the counts are read before the
  participant is created.
\<close>

definition accept_language :: "string option \<Rightarrow> json" where
  "accept_language lang = JStr (if truthy_str lang then the lang else ''en'')"

definition participation_init ::
  "env \<Rightarrow> db \<Rightarrow> cookie list \<Rightarrow> string option \<Rightarrow> string option \<Rightarrow> string option \<Rightarrow>
   auth_user option \<Rightarrow> (failure + json) \<times> cookie list \<times> db" where
  "participation_init ev d response conversation_id pid lang user =
     (if \<not> truthy_str conversation_id then
        (Inr (JObject
           [(''user'', (case user of None \<Rightarrow> JNull
                        | Some u \<Rightarrow> JObject [(''uid'', JInt (uid u))])),
            (''ptpt'', JNull),
            (''nextComment'', JNull),
            (''conversation'', JObject [(''translations'', JArray [])]),
            (''votes'', JArray []),
            (''pca'', JNull),
            (''famous'', JNull),
            (''acceptLanguage'', accept_language lang)]), response, d)
      else
        (let zid = DatabaseActor_get_zid_by_zinvite d (the conversation_id) in
         if \<not> truthy_int zid
         then (Inl (HTTPException 404 ''Conversation not found''), response, d)
         else
           (case DatabaseActor_read_conversation d (the zid) of
              None \<Rightarrow> (Inl (HTTPException 404 ''Conversation not found''), response, d)
            | Some conv \<Rightarrow>
                (let conversation = JObject
                       [(''conversation_id'', JStr (the conversation_id)),
                        (''topic'', JStr (conv_title conv)),
                        (''description'',
                           JStr (if truthy_str (conv_description conv)
                                 then the (conv_description conv) else [])),
                        (''is_active'', JBool (\<not> conv_is_archived conv)),
                        (''is_archived'', JBool (conv_is_archived conv)),
                        (''participant_count'',
                           JInt (DatabaseActor_count_participants d (the zid))),
                        (''comment_count'',
                           JInt (DatabaseActor_count_comments_in_conversation d (the zid))),
                        (''translations'', JArray []),
                        (''created'', isoformat_or_None (conv_created conv))];
                     (user_data, ptpt_data, votes_data, participant, response1, d1) =
                       (case user of
                          Some u \<Rightarrow>
                            (let (participant, d') =
                                   DatabaseActor_get_or_create_participant d (the zid) (uid u);
                                 votes_of_user =
                                   DatabaseActor_list_votes_by_user_id d' (uid u) 1 1000
                             in (JObject [(''uid'', JInt (uid u)), (''email'', JStr (email u))],
                                 JObject [(''pid'', JInt (participant_pid participant)),
                                          (''uid'', JInt (uid u))],
                                 map (\<lambda>v. JObject
                                        [(''tid'', JInt (vote_comment_id v)),
                                         (''vote'', JInt (vote_value v)),
                                         (''conversation_id'', JStr (the conversation_id))])
                                   votes_of_user,
                                 participant, response, d'))
                        | None \<Rightarrow>
                            (let pc_token = take 16 (uuid4_str ev);
                                 response' = set_cookie response ''pc'' pc_token False False
                                               ''lax'';
                                 (participant, d') =
                                   DatabaseActor_get_or_create_anonymous_participant d
                                     (the zid) pc_token
                             in (JNull,
                                 JObject [(''pid'', JInt (participant_pid participant))],
                                 [], participant, response', d')));
                     cs = DatabaseActor_list_comments_by_conversation_id d1 (the zid) 1 1;
                     next_comment =
                       (case cs of
                          [] \<Rightarrow> JObject []
                        | c # rest \<Rightarrow>
                            JObject
                              [(''tid'', JInt (comment_id c)),
                               (''txt'', JStr (comment_text_field c)),
                               (''conversation_id'', JStr (the conversation_id)),
                               (''currentPid'', JInt (participant_pid participant))])
                 in (Inr (JObject
                       [(''user'', user_data),
                        (''ptpt'', ptpt_data),
                        (''nextComment'', next_comment),
                        (''conversation'', conversation),
                        (''votes'', JArray votes_data),
                        (''pca'', JNull),
                        (''famous'', JNull),
                        (''acceptLanguage'', accept_language lang)]), response1, d1)))))"

section \<open>Comments endpoints\<close>

text \<open>
  \<^verbatim>\<open>
  @router.get("/comments", response_model=PolisResponse)
  async def get_comments(conversation_id: str, mod: Optional[int] = None,
                         user: Optional[Dict] = Depends(optional_auth)):
      zid = DatabaseActor.get_zid_by_zinvite(conversation_id)
      if not zid:
          raise HTTPException(status_code=404, detail="Conversation not found")
      comments = DatabaseActor.list_comments_by_conversation_id(zid, page=1,
                                                                 page_size=1000)
      result = []
      for c in comments:
          if user:
              participant = DatabaseActor.get_participant_by_zid_uid(zid, user["uid"])
          else:
              participant = None
          result.append({"tid": c.id, "txt": c.text_field, "pid": c.user_id,
              "created": c.created.isoformat() if c.created else None,
              "mod": c.moderation_status, "is_seed": False})
      return PolisResponse(status="ok", data=result)
  \<close>
  The participant read in the loop is not used.
\<close>

definition get_comments ::
  "db \<Rightarrow> string \<Rightarrow> int option \<Rightarrow> auth_user option \<Rightarrow> (failure + PolisResponse) \<times> db" where
  "get_comments d conversation_id mod_filter user =
     (let zid = DatabaseActor_get_zid_by_zinvite d conversation_id in
      if \<not> truthy_int zid then (Inl (HTTPException 404 ''Conversation not found''), d)
      else
        (let cs = DatabaseActor_list_comments_by_conversation_id d (the zid) 1 1000;
             result =
               map (\<lambda>c.
                      let participant =
                            (case user of
                               None \<Rightarrow> None
                             | Some u \<Rightarrow>
                                 DatabaseActor_get_participant_by_zid_uid d (the zid) (uid u))
                      in JObject
                           [(''tid'', JInt (comment_id c)),
                            (''txt'', JStr (comment_text_field c)),
                            (''pid'', JInt (comment_user_id c)),
                            (''created'', isoformat_or_None (comment_created c)),
                            (''mod'', JInt (comment_moderation_status c)),
                            (''is_seed'', JBool False)]) cs
         in (Inr \<lparr>status = ''ok'', data = Some (JArray result), error = None\<rparr>, d)))"

text \<open>
  \<^verbatim>\<open>class CommentCreateRequest(BaseModel)\<close>: \<^verbatim>\<open>conversation_id: str\<close>,
  \<^verbatim>\<open>txt: str\<close>, \<^verbatim>\<open>pid: Optional[str]\<close>, \<^verbatim>\<open>is_seed: Optional[bool]\<close>.
\<close>

record CommentCreateRequest =
  cc_conversation_id :: string
  cc_txt :: string
  cc_pid :: "string option"
  cc_is_seed :: "bool option"

text \<open>
  \<^verbatim>\<open>
  @router.post("/comments", response_model=PolisResponse)
  async def create_comment(user: Dict = Depends(require_auth),
          conversation_id: Optional[str] = None, txt: Optional[str] = None,
          body: Optional[CommentCreateRequest] = None):
      if body:
          conversation_id = body.conversation_id
          txt = body.txt
      if not conversation_id or not txt:
          raise HTTPException(status_code=400, detail="conversation_id and txt required")
      if not txt or len(txt.strip()) == 0:
          raise HTTPException(status_code=400, detail="Comment text required")
      zid = DatabaseActor.get_zid_by_zinvite(conversation_id)
      if not zid:
          raise HTTPException(status_code=404, detail="Conversation not found")
      participant = DatabaseActor.get_or_create_participant(zid, user["uid"])
      comment = DatabaseActor.create_comment({"text_field": txt, "user_id": user["uid"],
          "conversation_id": zid, "moderation_status": 0})
      return PolisResponse(status="ok", data={"tid": comment.id,
          "txt": comment.text_field, "pid": participant.pid,
          "created": comment.created.isoformat() if comment.created else None})
  \<close>
\<close>

definition create_comment ::
  "db \<Rightarrow> auth_user \<Rightarrow> string option \<Rightarrow> string option \<Rightarrow> CommentCreateRequest option \<Rightarrow>
   (failure + PolisResponse) \<times> db" where
  "create_comment d user conversation_id txt body =
     (let (conversation_id1, txt1) =
            (case body of
               Some b \<Rightarrow> (Some (cc_conversation_id b), Some (cc_txt b))
             | None \<Rightarrow> (conversation_id, txt))
      in if \<not> truthy_str conversation_id1 \<or> \<not> truthy_str txt1
         then (Inl (HTTPException 400 ''conversation_id and txt required''), d)
         else if \<not> truthy_str txt1 \<or> length (str_strip (the txt1)) = 0
         then (Inl (HTTPException 400 ''Comment text required''), d)
         else
           (let zid = DatabaseActor_get_zid_by_zinvite d (the conversation_id1) in
            if \<not> truthy_int zid then (Inl (HTTPException 404 ''Conversation not found''), d)
            else
              (let (participant, d1) =
                     DatabaseActor_get_or_create_participant d (the zid) (uid user);
                   (comment, d2) =
                     DatabaseActor_create_comment d1 (the txt1) (uid user) (the zid) 0
               in (Inr \<lparr>status = ''ok'',
                         data = Some (JObject
                           [(''tid'', JInt (comment_id comment)),
                            (''txt'', JStr (comment_text_field comment)),
                            (''pid'', JInt (participant_pid participant)),
                            (''created'', isoformat_or_None (comment_created comment))]),
                         error = None\<rparr>, d2))))"

text \<open>
  \<^verbatim>\<open>
  @router.get("/nextComment", response_model=PolisResponse)
  async def get_next_comment(conversation_id: str, user: Dict = Depends(require_auth)):
      zid = DatabaseActor.get_zid_by_zinvite(conversation_id)
      if not zid:
          raise HTTPException(status_code=404, detail="Conversation not found")
      participant = DatabaseActor.get_participant_by_zid_uid(zid, user["uid"])
      if not participant:
          participant = DatabaseActor.create_participant({"zid": zid, "uid": user["uid"]})
      comments = DatabaseActor.list_comments_by_conversation_id(zid)
      for c in comments:
          existing_vote = DatabaseActor.get_vote_by_user_comment(user["uid"], c.id)
          if not existing_vote and c.moderation_status >= 0:
              return PolisResponse(status="ok", data={"tid": c.id, "txt": c.text_field,
                  "pid": c.user_id,
                  "created": c.created.isoformat() if c.created else None})
      return PolisResponse(status="ok", data=None)
  \<close>
\<close>

definition get_next_comment ::
  "db \<Rightarrow> string \<Rightarrow> auth_user \<Rightarrow> (failure + PolisResponse) \<times> db" where
  "get_next_comment d conversation_id user =
     (let zid = DatabaseActor_get_zid_by_zinvite d conversation_id in
      if \<not> truthy_int zid then (Inl (HTTPException 404 ''Conversation not found''), d)
      else
        (let (participant, d1) =
               (case DatabaseActor_get_participant_by_zid_uid d (the zid) (uid user) of
                  Some p \<Rightarrow> (p, d)
                | None \<Rightarrow> DatabaseActor_create_participant d (the zid) (uid user));
             cs = DatabaseActor_list_comments_by_conversation_id d1 (the zid) 1
                    (default_page_size d1)
         in case find (\<lambda>c. DatabaseActor_get_vote_by_user_comment d1 (uid user) (comment_id c)
                               = None
                            \<and> comment_moderation_status c \<ge> 0) cs of
              Some c \<Rightarrow>
                (Inr \<lparr>status = ''ok'',
                      data = Some (JObject
                        [(''tid'', JInt (comment_id c)),
                         (''txt'', JStr (comment_text_field c)),
                         (''pid'', JInt (comment_user_id c)),
                         (''created'', isoformat_or_None (comment_created c))]),
                      error = None\<rparr>, d1)
            | None \<Rightarrow> (Inr \<lparr>status = ''ok'', data = None, error = None\<rparr>, d1)))"

section \<open>Votes endpoints\<close>

text \<open>
  \<^verbatim>\<open>
  @router.post("/votes", response_model=PolisResponse)
  async def create_vote(conversation_id: str, tid: int, vote: int,
                        user: Dict = Depends(require_auth)):
      if vote not in [-1, 0, 1]:
          raise HTTPException(status_code=400, detail="Vote must be -1, 0, or 1")
      zid = DatabaseActor.get_zid_by_zinvite(conversation_id)
      if not zid:
          raise HTTPException(status_code=404, detail="Conversation not found")
      participant = DatabaseActor.get_or_create_participant(zid, user["uid"])
      existing = DatabaseActor.get_vote_by_user_comment(user["uid"], tid)
      if existing:
          updated = DatabaseActor.update_vote(existing.id, {"value": vote})
          return PolisResponse(status="ok", data={"vid": updated.id,
              "pid": participant.pid, "tid": tid, "vote": updated.value})
      new_vote = DatabaseActor.create_vote({"user_id": user["uid"],
          "comment_id": tid, "value": vote})
      DatabaseActor.increment_vote_count(participant.pid)
      return PolisResponse(status="ok", data={"vid": new_vote.id,
          "pid": participant.pid, "tid": tid, "vote": new_vote.value})
  \<close>
  Reading \<^verbatim>\<open>updated.id\<close> raises \<^verbatim>\<open>AttributeError\<close> if the update returned
  \<^verbatim>\<open>None\<close>.
\<close>

definition create_vote ::
  "db \<Rightarrow> string \<Rightarrow> int \<Rightarrow> int \<Rightarrow> auth_user \<Rightarrow> (failure + PolisResponse) \<times> db" where
  "create_vote d conversation_id tid vote user =
     (if vote \<notin> set [- 1, 0, 1]
      then (Inl (HTTPException 400 ''Vote must be -1, 0, or 1''), d)
      else
        (let zid = DatabaseActor_get_zid_by_zinvite d conversation_id in
         if \<not> truthy_int zid then (Inl (HTTPException 404 ''Conversation not found''), d)
         else
           (let (participant, d1) =
                  DatabaseActor_get_or_create_participant d (the zid) (uid user)
            in case DatabaseActor_get_vote_by_user_comment d1 (uid user) tid of
                 Some existing \<Rightarrow>
                   (case DatabaseActor_update_vote d1 (vote_id existing) vote of
                      (None, d2) \<Rightarrow> (Inl AttributeError, d2)
                    | (Some updated, d2) \<Rightarrow>
                        (Inr \<lparr>status = ''ok'',
                              data = Some (JObject
                                [(''vid'', JInt (vote_id updated)),
                                 (''pid'', JInt (participant_pid participant)),
                                 (''tid'', JInt tid),
                                 (''vote'', JInt (vote_value updated))]),
                              error = None\<rparr>, d2))
               | None \<Rightarrow>
                   (let (new_vote, d2) = DatabaseActor_create_vote d1 (uid user) tid vote;
                        d3 = DatabaseActor_increment_vote_count d2 (participant_pid participant)
                    in (Inr \<lparr>status = ''ok'',
                              data = Some (JObject
                                [(''vid'', JInt (vote_id new_vote)),
                                 (''pid'', JInt (participant_pid participant)),
                                 (''tid'', JInt tid),
                                 (''vote'', JInt (vote_value new_vote))]),
                              error = None\<rparr>, d3)))))"

text \<open>
  \<^verbatim>\<open>
  @router.get("/votes", response_model=PolisResponse)
  async def get_votes(conversation_id: str, user: Optional[Dict] = Depends(optional_auth)):
      zid = DatabaseActor.get_zid_by_zinvite(conversation_id)
      if not zid:
          raise HTTPException(status_code=404, detail="Conversation not found")
      comments = DatabaseActor.list_comments_by_conversation_id(zid)
      all_votes = []
      for c in comments:
          votes = DatabaseActor.list_votes_by_comment_id(c.id)
          for v in votes:
              all_votes.append({"vid": v.id, "pid": v.user_id, "tid": v.comment_id,
                  "vote": v.value,
                  "created": v.created.isoformat() if v.created else None})
      return PolisResponse(status="ok", data=all_votes)
  \<close>
\<close>

definition get_votes ::
  "db \<Rightarrow> string \<Rightarrow> auth_user option \<Rightarrow> (failure + PolisResponse) \<times> db" where
  "get_votes d conversation_id user =
     (let zid = DatabaseActor_get_zid_by_zinvite d conversation_id in
      if \<not> truthy_int zid then (Inl (HTTPException 404 ''Conversation not found''), d)
      else
        (let cs = DatabaseActor_list_comments_by_conversation_id d (the zid) 1
                    (default_page_size d);
             all_votes =
               concat (map (\<lambda>c.
                 map (\<lambda>v. JObject
                        [(''vid'', JInt (vote_id v)),
                         (''pid'', JInt (vote_user_id v)),
                         (''tid'', JInt (vote_comment_id v)),
                         (''vote'', JInt (vote_value v)),
                         (''created'', isoformat_or_None (vote_created v))])
                   (DatabaseActor_list_votes_by_comment_id d (comment_id c))) cs)
         in (Inr \<lparr>status = ''ok'', data = Some (JArray all_votes), error = None\<rparr>, d)))"

text \<open>
  \<^verbatim>\<open>
  @router.get("/votes/me", response_model=PolisResponse)
  async def get_my_votes(conversation_id: str, user: Dict = Depends(require_auth)):
      zid = DatabaseActor.get_zid_by_zinvite(conversation_id)
      if not zid:
          raise HTTPException(status_code=404, detail="Conversation not found")
      comments = DatabaseActor.list_comments_by_conversation_id(zid)
      my_votes = []
      for c in comments:
          vote = DatabaseActor.get_vote_by_user_comment(user["uid"], c.id)
          if vote:
              my_votes.append({"tid": c.id, "vote": vote.value,
                  "created": vote.created.isoformat() if vote.created else None})
      return PolisResponse(status="ok", data=my_votes)
  \<close>
\<close>

definition get_my_votes ::
  "db \<Rightarrow> string \<Rightarrow> auth_user \<Rightarrow> (failure + PolisResponse) \<times> db" where
  "get_my_votes d conversation_id user =
     (let zid = DatabaseActor_get_zid_by_zinvite d conversation_id in
      if \<not> truthy_int zid then (Inl (HTTPException 404 ''Conversation not found''), d)
      else
        (let cs = DatabaseActor_list_comments_by_conversation_id d (the zid) 1
                    (default_page_size d);
             my_votes =
               concat (map (\<lambda>c.
                 (case DatabaseActor_get_vote_by_user_comment d (uid user) (comment_id c) of
                    None \<Rightarrow> []
                  | Some v \<Rightarrow>
                      [JObject
                         [(''tid'', JInt (comment_id c)),
                          (''vote'', JInt (vote_value v)),
                          (''created'', isoformat_or_None (vote_created v))]])) cs)
         in (Inr \<lparr>status = ''ok'', data = Some (JArray my_votes), error = None\<rparr>, d)))"

section \<open>The route table\<close>

text \<open>
  The \<^verbatim>\<open>@router.get/post/put(path)\<close> decorators of \<^verbatim>\<open>core.py\<close>, in source order: the
  method, the path as written, and the name of the decorated function.
\<close>

datatype http_method = GET | POST | PUT | DELETE | PATCH | HEAD | OPTIONS

definition router_routes :: "(http_method \<times> string \<times> string) list" where
  "router_routes =
     [(GET, ''/'', ''get_testroute''),
      (GET, ''/user'', ''get_user_route''),
      (GET, ''/testConnection'', ''test_connection''),
      (GET, ''/testDatabase'', ''test_database''),
      (POST, ''/auth/new'', ''register_user''),
      (POST, ''/auth/login'', ''login''),
      (POST, ''/auth/deregister'', ''deregister''),
      (POST, ''/auth/pwresettoken'', ''request_password_reset''),
      (POST, ''/auth/password'', ''change_password''),
      (GET, ''/users'', ''get_user''),
      (PUT, ''/users'', ''update_user''),
      (GET, ''/conversations'', ''get_conversations''),
      (POST, ''/conversations'', ''create_conversation''),
      (PUT, ''/conversations'', ''update_conversation''),
      (POST, ''/conversation/close'', ''close_conversation''),
      (POST, ''/conversation/reopen'', ''reopen_conversation''),
      (GET, ''/participants'', ''get_participants''),
      (POST, ''/participants'', ''join_conversation''),
      (GET, ''/participationInit'', ''participation_init''),
      (GET, ''/comments'', ''get_comments''),
      (POST, ''/comments'', ''create_comment''),
      (PUT, ''/comments'', ''update_comment''),
      (GET, ''/nextComment'', ''get_next_comment''),
      (GET, ''/votes'', ''get_votes''),
      (POST, ''/votes'', ''create_vote''),
      (GET, ''/votes/me'', ''get_my_votes''),
      (GET, ''/zinvites/{zid}'', ''get_zinvite''),
      (POST, ''/zinvites/{zid}'', ''create_zinvite''),
      (POST, ''/joinWithInvite'', ''join_with_invite''),
      (GET, ''/math/pca'', ''get_pca''),
      (GET, ''/math/pca2'', ''get_pca2''),
      (GET, ''/conversationStats'', ''get_conversation_stats''),
      (GET, ''/conversations/preload'', ''preload_conversation'')]"

text \<open>
  How the framework picks a route for a request path (the query string is not part of
  it): a path parameter \<^verbatim>\<open>{name}\<close> matches one non-empty segment, every other segment
  matches itself. The first route whose path and method both match handles the request;
  if only paths match, the answer is 405; if the path with its trailing slash toggled
  matches some route, the answer is a redirect to it; otherwise 404.
\<close>

fun split_on :: "char \<Rightarrow> string \<Rightarrow> string list" where
  "split_on c [] = [[]]"
| "split_on c (x # xs) =
     (if x = c then [] # split_on c xs
      else (case split_on c xs of
              [] \<Rightarrow> [[x]]
            | w # ws \<Rightarrow> (x # w) # ws))"

definition segment_matches :: "string \<Rightarrow> string \<Rightarrow> bool" where
  "segment_matches pat seg =
     (if pat \<noteq> [] \<and> hd pat = CHR ''{'' \<and> last pat = CHR ''}'' then seg \<noteq> [] else seg = pat)"

definition path_matches :: "string \<Rightarrow> string \<Rightarrow> bool" where
  "path_matches pat path =
     list_all2 segment_matches (split_on CHR ''/'' pat) (split_on CHR ''/'' path)"

datatype dispatch =
    Endpoint string
  | MethodNotAllowed
  | RedirectSlashes string
  | NotFound

definition toggle_slash :: "string \<Rightarrow> string" where
  "toggle_slash path =
     (if path \<noteq> [] \<and> last path = CHR ''/''
      then rev (dropWhile (\<lambda>c. c = CHR ''/'') (rev path))
      else path @ ''/'')"

definition router_dispatch :: "http_method \<Rightarrow> string \<Rightarrow> dispatch" where
  "router_dispatch m path =
     (case find (\<lambda>(m', pat, name). path_matches pat path \<and> m' = m) router_routes of
        Some (m', pat, name) \<Rightarrow> Endpoint name
      | None \<Rightarrow>
          if list_ex (\<lambda>(m', pat, name). path_matches pat path) router_routes
          then MethodNotAllowed
          else if path \<noteq> ''/'' \<and>
                  list_ex (\<lambda>(m', pat, name). path_matches pat (toggle_slash path)) router_routes
          then RedirectSlashes (toggle_slash path)
          else NotFound)"

section \<open>Notions used by the properties\<close>

text \<open>
  The invariant of the vote table: no two rows for the same (user, comment) pair. The
  router identifies the voter by \<^verbatim>\<open>user["uid"]\<close> and the comment by \<^verbatim>\<open>tid\<close>.
\<close>

definition votes_unique :: "db \<Rightarrow> bool" where
  "votes_unique d = distinct (map (\<lambda>r. (vote_user_id r, vote_comment_id r)) (votes d))"

text \<open>The response of POST /votes, as both of its branches build it.\<close>

definition vote_response :: "int \<Rightarrow> int \<Rightarrow> int \<Rightarrow> int \<Rightarrow> PolisResponse" where
  "vote_response vid pid tid v =
     \<lparr>status = ''ok'',
      data = Some (JObject [(''vid'', JInt vid), (''pid'', JInt pid), (''tid'', JInt tid),
                            (''vote'', JInt v)]),
      error = None\<rparr>"

text \<open>
  Whether the \<^verbatim>\<open>uid2\<close> cookie names a user: it is non-empty, \<^verbatim>\<open>int\<close> accepts it, the
  number is not 0 and a user row has that id.
\<close>

definition valid_uid2 :: "db \<Rightarrow> string option \<Rightarrow> bool" where
  "valid_uid2 d uid2 =
     (case uid2 of
        None \<Rightarrow> False
      | Some s \<Rightarrow>
          s \<noteq> [] \<and>
          (case py_int s of
             None \<Rightarrow> False
           | Some u \<Rightarrow> u \<noteq> 0 \<and> DatabaseActor_read_user d u \<noteq> None))"

text \<open>
  Reading a math result: \<^verbatim>\<open>d[k]\<close> on a dict, the two projections and the list of
  clusters of a response, where GET /math/pca puts them (\<^verbatim>\<open>data\<close>) and where
  GET /math/pca2 puts them (\<^verbatim>\<open>data["pca"]\<close>).
\<close>

definition json_get :: "json \<Rightarrow> string \<Rightarrow> json option" where
  "json_get j k = (case j of JObject kvs \<Rightarrow> map_of kvs k | _ \<Rightarrow> None)"

definition json_array :: "json option \<Rightarrow> json list option" where
  "json_array j = (case j of Some (JArray xs) \<Rightarrow> Some xs | _ \<Rightarrow> None)"

definition pca_field :: "(failure + PolisResponse) \<Rightarrow> string \<Rightarrow> json list option" where
  "pca_field r k =
     (case r of
        Inl e \<Rightarrow> None
      | Inr resp \<Rightarrow> (case data resp of None \<Rightarrow> None | Some j \<Rightarrow> json_array (json_get j k)))"

definition pca2_field :: "(failure + PolisResponse) \<Rightarrow> string \<Rightarrow> json list option" where
  "pca2_field r k =
     (case r of
        Inl e \<Rightarrow> None
      | Inr resp \<Rightarrow>
          (case data resp of
             None \<Rightarrow> None
           | Some j \<Rightarrow>
               (case json_get j ''pca'' of
                  None \<Rightarrow> None
                | Some j2 \<Rightarrow> json_array (json_get j2 k))))"

definition cluster_count :: "(failure + PolisResponse) \<Rightarrow> nat option" where
  "cluster_count r = map_option length (pca_field r ''baseCluster'')"

definition cluster_count2 :: "(failure + PolisResponse) \<Rightarrow> nat option" where
  "cluster_count2 r = map_option length (pca2_field r ''baseClusters'')"

section \<open>Example stores\<close>

text \<open>One conversation (zid 7) behind the invite code \<^verbatim>\<open>abc\<close>, no votes yet.\<close>

definition db_example :: db where
  "db_example =
     \<lparr>users = [\<lparr>user_id = 1, user_email = ''a@x.org'', user_auth_token = ''h1'',
                user_hname = None, user_is_admin = False, user_other = []\<rparr>],
      zinvites = [\<lparr>zinvite_zinvite = ''abc'', zinvite_zid = 7\<rparr>],
      conversations = [\<lparr>conv_id = 7, conv_title = ''Trees'', conv_description = None,
                        conv_user_id = 1, conv_is_archived = False,
                        conv_created = Some ''2026-01-01T00:00:00'', conv_settings = None\<rparr>],
      participants = [],
      comments = [],
      votes = [],
      clock = ''2026-01-02T00:00:00'',
      zinvite_gen = (\<lambda>n. replicate (n + 1) CHR ''z''),
      default_page_size = 10\<rparr>"

text \<open>The same store after user 1 has voted 1 on comment 3.\<close>

definition db_voted :: db where
  "db_voted =
     db_example
       \<lparr>participants := [\<lparr>participant_pid = 1, participant_zid = 7, participant_uid = 1,
                           participant_vote_count = 1,
                           participant_created = Some ''2026-01-02T00:00:00'',
                           participant_pc = None\<rparr>],
        votes := [\<lparr>vote_id = 1, vote_user_id = 1, vote_comment_id = 3, vote_value = 1,
                   vote_created = Some ''2026-01-02T00:00:00''\<rparr>]\<rparr>"

text \<open>The first store with a second user.\<close>

definition db_two_users :: db where
  "db_two_users =
     db_example
       \<lparr>users := users db_example @
          [\<lparr>user_id = 2, user_email = ''b@x.org'', user_auth_token = ''h2'',
            user_hname = None, user_is_admin = False, user_other = []\<rparr>]\<rparr>"

definition user_example :: auth_user where
  "user_example = \<lparr>uid = 1, email = ''a@x.org'', is_admin = False\<rparr>"

text \<open>An environment whose stand-in for the hash only tags its input.\<close>

definition env_example :: env where
  "env_example =
     \<lparr>sha256_hexdigest = (\<lambda>s. ''#'' @ s), jwt_secret = ''secret'',
      now_isoformat = ''2026-01-01T00:00:00'',
      uuid4_str = ''0f8fad5b-d9cb-469f-a165-70867728950e''\<rparr>"

definition request_example :: AuthNewRequest where
  "request_example =
     \<lparr>req_email = ''b@x.org'', req_password = ''pw'', req_name = Some ''Bea'',
      req_hname = None, req_gatekeeperTosPrivacy = None\<rparr>"

section \<open>Facts about the store\<close>

lemma find_map_preserved:
  assumes "\<And>x. P (f x) = P x"
  shows "find P (map f xs) = map_option f (find P xs)"
  using assms by (induction xs) auto

lemma goc_votes: "votes (snd (DatabaseActor_get_or_create_participant d z u)) = votes d"
  by (simp add: DatabaseActor_get_or_create_participant_def DatabaseActor_create_participant_def Let_def split: option.splits)

lemma goc_zinvites: "zinvites (snd (DatabaseActor_get_or_create_participant d z u)) = zinvites d"
  by (simp add: DatabaseActor_get_or_create_participant_def DatabaseActor_create_participant_def Let_def split: option.splits)

lemma update_vote_keys:
  "(\<lambda>r. (vote_user_id r, vote_comment_id r)) \<circ>
     (\<lambda>r. if vote_id r = i then r\<lparr>vote_value := v\<rparr> else r)
   = (\<lambda>r. (vote_user_id r, vote_comment_id r))"
  by (auto simp: fun_eq_iff)

lemma create_vote_votes_cases:
  "votes (snd (create_vote d cid tid vote user)) = votes d
   \<or> (\<exists>e. DatabaseActor_get_vote_by_user_comment d (uid user) tid = Some e
        \<and> votes (snd (create_vote d cid tid vote user))
            = map (\<lambda>r. if vote_id r = vote_id e then r\<lparr>vote_value := vote\<rparr> else r) (votes d))
   \<or> (DatabaseActor_get_vote_by_user_comment d (uid user) tid = None
        \<and> (\<exists>r. vote_user_id r = uid user \<and> vote_comment_id r = tid
              \<and> votes (snd (create_vote d cid tid vote user)) = votes d @ [r]))"
  apply (simp add: create_vote_def Let_def split: option.splits prod.splits)
  apply (auto simp: DatabaseActor_get_vote_by_user_comment_def DatabaseActor_update_vote_def
      DatabaseActor_create_vote_def DatabaseActor_increment_vote_count_def Let_def
      DatabaseActor_get_or_create_participant_def DatabaseActor_create_participant_def
      split: option.splits)
  done

lemma inv_preserved:
  assumes inv: "votes_unique d"
  shows "votes_unique (snd (create_vote d cid tid vote user))"
proof -
  let ?d' = "snd (create_vote d cid tid vote user)"
  let ?key = "\<lambda>r. (vote_user_id r, vote_comment_id r)"
  consider (same) "votes ?d' = votes d"
    | (upd) e :: vote_row where "votes ?d' =
          map (\<lambda>r. if vote_id r = vote_id e then r\<lparr>vote_value := vote\<rparr> else r) (votes d)"
    | (new) r where "DatabaseActor_get_vote_by_user_comment d (uid user) tid = None"
        "vote_user_id r = uid user" "vote_comment_id r = tid" "votes ?d' = votes d @ [r]"
    using create_vote_votes_cases [of d cid tid vote user] by blast
  then show ?thesis
  proof cases
    case same
    with inv show ?thesis by (simp add: votes_unique_def)
  next
    case upd
    with inv show ?thesis by (simp add: votes_unique_def update_vote_keys)
  next
    case new
    from new(1) have "\<forall>x \<in> set (votes d). \<not> (vote_user_id x = uid user \<and> vote_comment_id x = tid)"
      by (simp add: DatabaseActor_get_vote_by_user_comment_def find_None_iff)
    then have "?key r \<notin> ?key ` set (votes d)"
      using new(2,3) by auto
    with inv new(4) show ?thesis by (simp add: votes_unique_def)
  qed
qed


lemma foldr_max_upper: "x \<in> set xs \<Longrightarrow> x \<le> foldr max xs (0::int)"
  by (induction xs) auto

lemma next_id_fresh: "x \<in> set ids \<Longrightarrow> x < next_id ids"
  using foldr_max_upper [of x ids] by (simp add: next_id_def)

lemma find_append_new:
  "find P xs = None \<Longrightarrow> P x \<Longrightarrow> find P (xs @ [x]) = Some x"
  by (induction xs) (auto split: if_splits)

lemma goc_again:
  assumes "DatabaseActor_get_or_create_participant d z u = (p, d0)"
  shows "DatabaseActor_get_participant_by_zid_uid d0 z u = Some p"
  using assms
  by (auto simp: DatabaseActor_get_or_create_participant_def DatabaseActor_create_participant_def Let_def
      DatabaseActor_get_participant_by_zid_uid_def find_append_new split: option.splits)

lemma goc_found:
  "DatabaseActor_get_participant_by_zid_uid d z u = Some p \<Longrightarrow>
   DatabaseActor_get_or_create_participant d z u = (p, d)"
  by (simp add: DatabaseActor_get_or_create_participant_def
      DatabaseActor_get_participant_by_zid_uid_def)

lemma goc_votes_eq: "DatabaseActor_get_or_create_participant d z u = (p, d0) \<Longrightarrow> votes d0 = votes d"
  using goc_votes [of d z u] by simp

lemma goc_zinvites_eq: "DatabaseActor_get_or_create_participant d z u = (p, d0) \<Longrightarrow> zinvites d0 = zinvites d"
  using goc_zinvites [of d z u] by simp

lemma goc_clock_eq: "DatabaseActor_get_or_create_participant d z u = (p, d0) \<Longrightarrow> clock d0 = clock d"
  by (auto simp: DatabaseActor_get_or_create_participant_def DatabaseActor_create_participant_def
      Let_def split: option.splits)

lemma update_vote_hit:
  assumes "(e::vote_row) \<in> set (votes d)"
  shows "\<exists>u. DatabaseActor_update_vote d (vote_id e) v =
           (Some u, d\<lparr>votes := map (\<lambda>r. if vote_id r = vote_id e then r\<lparr>vote_value := v\<rparr> else r) (votes d)\<rparr>)
         \<and> vote_id u = vote_id e \<and> vote_value u = v"
proof -
  let ?f = "\<lambda>r::vote_row. if vote_id r = vote_id e then r\<lparr>vote_value := v\<rparr> else r"
  have "find (\<lambda>r. vote_id r = vote_id e) (map ?f (votes d))
          = map_option ?f (find (\<lambda>r. vote_id r = vote_id e) (votes d))"
    by (rule find_map_preserved) simp
  moreover obtain r where "find (\<lambda>r. vote_id r = vote_id e) (votes d) = Some r"
    using assms by (cases "find (\<lambda>r. vote_id r = vote_id e) (votes d)") (auto simp: find_None_iff)
  moreover from this have "vote_id r = vote_id e"
    by (auto simp: find_Some_iff)
  ultimately show ?thesis
    by (simp add: DatabaseActor_update_vote_def Let_def)
qed

lemma get_vote_mem:
  "DatabaseActor_get_vote_by_user_comment d u c = Some e \<Longrightarrow>
     e \<in> set (votes d) \<and> vote_user_id e = u \<and> vote_comment_id e = c"
  by (auto simp: DatabaseActor_get_vote_by_user_comment_def find_Some_iff)

lemma create_vote_existing:
  assumes valid: "vote \<in> {- 1, 0, 1}"
    and zid: "DatabaseActor_get_zid_by_zinvite d cid = Some zid" "zid \<noteq> 0"
    and goc: "DatabaseActor_get_or_create_participant d zid (uid user) = (p, d0)"
    and ex: "DatabaseActor_get_vote_by_user_comment d (uid user) tid = Some e"
  shows "create_vote d cid tid vote user =
           (Inr (vote_response (vote_id e) (participant_pid p) tid vote),
            d0\<lparr>votes := map (\<lambda>r. if vote_id r = vote_id e then r\<lparr>vote_value := vote\<rparr> else r) (votes d)\<rparr>)"
proof -
  have v0: "votes d0 = votes d" using goc by (rule goc_votes_eq)
  then have ex0: "DatabaseActor_get_vote_by_user_comment d0 (uid user) tid = Some e"
    using ex by (simp add: DatabaseActor_get_vote_by_user_comment_def)
  have "e \<in> set (votes d0)" using get_vote_mem [OF ex] v0 by simp
  from update_vote_hit [OF this, of vote] obtain u where
    u: "DatabaseActor_update_vote d0 (vote_id e) vote =
          (Some u, d0\<lparr>votes := map (\<lambda>r. if vote_id r = vote_id e then r\<lparr>vote_value := vote\<rparr> else r) (votes d0)\<rparr>)"
      "vote_id u = vote_id e" "vote_value u = vote"
    by blast
  show ?thesis
    using valid zid goc ex0 u v0
    by (simp add: create_vote_def truthy_int_def vote_response_def)
qed

lemma create_vote_new:
  assumes valid: "vote \<in> {- 1, 0, 1}"
    and zid: "DatabaseActor_get_zid_by_zinvite d cid = Some zid" "zid \<noteq> 0"
    and goc: "DatabaseActor_get_or_create_participant d zid (uid user) = (p, d0)"
    and ex: "DatabaseActor_get_vote_by_user_comment d (uid user) tid = None"
  shows "create_vote d cid tid vote user =
           (Inr (vote_response (next_id (map vote_id (votes d))) (participant_pid p) tid vote),
            DatabaseActor_increment_vote_count
              (d0\<lparr>votes := votes d @
                 [\<lparr>vote_id = next_id (map vote_id (votes d)), vote_user_id = uid user,
                   vote_comment_id = tid, vote_value = vote,
                   vote_created = Some (clock d)\<rparr>]\<rparr>) (participant_pid p))"
proof -
  have v0: "votes d0 = votes d" using goc by (rule goc_votes_eq)
  then have ex0: "DatabaseActor_get_vote_by_user_comment d0 (uid user) tid = None"
    using ex by (simp add: DatabaseActor_get_vote_by_user_comment_def)
  show ?thesis
    using valid zid goc ex0 v0 goc_clock_eq [OF goc]
    by (simp add: create_vote_def truthy_int_def vote_response_def DatabaseActor_create_vote_def Let_def)
qed


lemma map_update_fresh:
  assumes "\<forall>r \<in> set vs. vote_id r \<noteq> i"
  shows "map (\<lambda>r::vote_row. if vote_id r = i then r\<lparr>vote_value := v\<rparr> else r) vs = vs"
  using assms by (induction vs) auto

lemma second_vote_existing:
  assumes valid: "vote \<in> {- 1, 0, 1}"
    and zid: "DatabaseActor_get_zid_by_zinvite d cid = Some zid" "zid \<noteq> 0"
    and goc: "DatabaseActor_get_or_create_participant d zid (uid user) = (p, d0)"
    and ex: "DatabaseActor_get_vote_by_user_comment d (uid user) tid = Some e"
    and d1: "d1 = d0\<lparr>votes := map (\<lambda>r. if vote_id r = vote_id e then r\<lparr>vote_value := vote\<rparr> else r) (votes d)\<rparr>"
  shows "create_vote d1 cid tid vote user =
           (Inr (vote_response (vote_id e) (participant_pid p) tid vote), d1)"
    and "DatabaseActor_get_vote_by_user_comment d1 (uid user) tid = Some (e\<lparr>vote_value := vote\<rparr>)"
proof -
  let ?f = "\<lambda>r::vote_row. if vote_id r = vote_id e then r\<lparr>vote_value := vote\<rparr> else r"
  have z1: "DatabaseActor_get_zid_by_zinvite d1 cid = Some zid"
    using zid(1) goc_zinvites_eq [OF goc] d1 by (simp add: DatabaseActor_get_zid_by_zinvite_def)
  have "DatabaseActor_get_participant_by_zid_uid d1 zid (uid user) = Some p"
    using goc_again [OF goc] d1 by (simp add: DatabaseActor_get_participant_by_zid_uid_def)
  then have g1: "DatabaseActor_get_or_create_participant d1 zid (uid user) = (p, d1)"
    by (rule goc_found)
  have "find (\<lambda>r. vote_user_id r = uid user \<and> vote_comment_id r = tid) (map ?f (votes d))
          = map_option ?f (find (\<lambda>r. vote_user_id r = uid user \<and> vote_comment_id r = tid) (votes d))"
    by (rule find_map_preserved) simp
  then show e1: "DatabaseActor_get_vote_by_user_comment d1 (uid user) tid = Some (e\<lparr>vote_value := vote\<rparr>)"
    using ex d1 by (simp add: DatabaseActor_get_vote_by_user_comment_def)
  have "map (\<lambda>r. if vote_id r = vote_id (e\<lparr>vote_value := vote\<rparr>) then r\<lparr>vote_value := vote\<rparr> else r) (votes d1)
          = votes d1"
    using d1 by simp
  then show "create_vote d1 cid tid vote user =
           (Inr (vote_response (vote_id e) (participant_pid p) tid vote), d1)"
    using create_vote_existing [OF valid z1 zid(2) g1 e1] by simp
qed

lemma second_vote_new:
  assumes valid: "vote \<in> {- 1, 0, 1}"
    and zid: "DatabaseActor_get_zid_by_zinvite d cid = Some zid" "zid \<noteq> 0"
    and goc: "DatabaseActor_get_or_create_participant d zid (uid user) = (p, d0)"
    and ex: "DatabaseActor_get_vote_by_user_comment d (uid user) tid = None"
    and n: "n = \<lparr>vote_id = next_id (map vote_id (votes d)), vote_user_id = uid user,
                   vote_comment_id = tid, vote_value = vote,
                   vote_created = Some (clock d)\<rparr>"
    and d1: "d1 = DatabaseActor_increment_vote_count (d0\<lparr>votes := votes d @ [n]\<rparr>) (participant_pid p)"
  shows "create_vote d1 cid tid vote user =
           (Inr (vote_response (vote_id n) (participant_pid p) tid vote), d1)"
    and "DatabaseActor_get_vote_by_user_comment d1 (uid user) tid = Some n"
    and "DatabaseActor_get_participant_by_zid_uid d1 zid (uid user)
           = Some (p\<lparr>participant_vote_count := participant_vote_count p + 1\<rparr>)"
proof -
  let ?g = "\<lambda>r. if participant_pid r = participant_pid p
                 then r\<lparr>participant_vote_count := participant_vote_count r + 1\<rparr> else r"
  let ?p' = "p\<lparr>participant_vote_count := participant_vote_count p + 1\<rparr>"
  have vs1: "votes d1 = votes d @ [n]" and ps1: "participants d1 = map ?g (participants d0)"
    and zs1: "zinvites d1 = zinvites d"
    using d1 goc_zinvites_eq [OF goc] by (simp_all add: DatabaseActor_increment_vote_count_def)
  have z1: "DatabaseActor_get_zid_by_zinvite d1 cid = Some zid"
    using zid(1) zs1 by (simp add: DatabaseActor_get_zid_by_zinvite_def)
  have "find (\<lambda>r. participant_zid r = zid \<and> participant_uid r = uid user) (map ?g (participants d0))
          = map_option ?g (find (\<lambda>r. participant_zid r = zid \<and> participant_uid r = uid user) (participants d0))"
    by (rule find_map_preserved) simp
  then show p1: "DatabaseActor_get_participant_by_zid_uid d1 zid (uid user) = Some ?p'"
    using goc_again [OF goc] ps1 by (simp add: DatabaseActor_get_participant_by_zid_uid_def)
  then have g1: "DatabaseActor_get_or_create_participant d1 zid (uid user) = (?p', d1)"
    by (rule goc_found)
  show e1: "DatabaseActor_get_vote_by_user_comment d1 (uid user) tid = Some n"
    using ex vs1 n by (simp add: DatabaseActor_get_vote_by_user_comment_def find_append_new)
  have "\<forall>r \<in> set (votes d). vote_id r \<noteq> vote_id n"
    using next_id_fresh [of _ "map vote_id (votes d)"] n by fastforce
  then have "map (\<lambda>r. if vote_id r = vote_id n then r\<lparr>vote_value := vote\<rparr> else r) (votes d) = votes d"
    by (rule map_update_fresh)
  then have "map (\<lambda>r. if vote_id r = vote_id n then r\<lparr>vote_value := vote\<rparr> else r) (votes d1) = votes d1"
    using vs1 n by simp
  then show "create_vote d1 cid tid vote user =
           (Inr (vote_response (vote_id n) (participant_pid p) tid vote), d1)"
    using create_vote_existing [OF valid z1 zid(2) g1 e1] by simp
qed


section \<open>Facts about authentication\<close>

lemma bearer_token:
  "t \<noteq> [] \<Longrightarrow> truthy_str (Some (''Bearer '' @ t)) \<and> startswith (''Bearer '' @ t) ''Bearer ''
     \<and> drop 7 (''Bearer '' @ t) = t"
  by (simp add: truthy_str_def startswith_def)

lemma get_current_user_bearer:
  assumes "t \<noteq> []"
  shows "get_current_user d (Some (''Bearer '' @ t)) token2 uid2 =
     (case (if valid_uid2 d uid2 then DatabaseActor_read_user d (the (py_int (the uid2)))
            else DatabaseActor_read_user d 1) of
        None \<Rightarrow> None
      | Some user \<Rightarrow> Some \<lparr>uid = user_id user, email = user_email user,
                           is_admin = user_is_admin user\<rparr>)"
  using assms bearer_token [OF assms]
  by (auto simp: get_current_user_def valid_uid2_def truthy_str_def truthy_int_def Let_def
      split: option.splits)

lemma get_current_user_cookie:
  assumes "t \<noteq> []" and "\<not> (truthy_str authorization \<and> startswith (the authorization) ''Bearer '')"
  shows "get_current_user d authorization (Some t) uid2 =
     (case (if valid_uid2 d uid2 then DatabaseActor_read_user d (the (py_int (the uid2)))
            else DatabaseActor_read_user d 1) of
        None \<Rightarrow> None
      | Some user \<Rightarrow> Some \<lparr>uid = user_id user, email = user_email user,
                           is_admin = user_is_admin user\<rparr>)"
  using assms
  by (auto simp: get_current_user_def valid_uid2_def truthy_str_def truthy_int_def Let_def
      split: option.splits)

section \<open>Evaluated examples\<close>

lemma db_voted_eval:
  "votes db_voted = [\<lparr>vote_id = 1, vote_user_id = 1, vote_comment_id = 3, vote_value = 1,
         vote_created = Some ''2026-01-02T00:00:00''\<rparr>]"
  "participants db_voted = [\<lparr>participant_pid = 1, participant_zid = 7, participant_uid = 1,
         participant_vote_count = 1, participant_created = Some ''2026-01-02T00:00:00'',
         participant_pc = None\<rparr>]"
  "zinvites db_voted = [\<lparr>zinvite_zinvite = ''abc'', zinvite_zid = 7\<rparr>]"
  by (simp_all add: db_voted_def db_example_def)

lemma first_vote_example:
  "create_vote db_example ''abc'' 3 1 user_example = (Inr (vote_response 1 1 3 1), db_voted)"
  by (simp add: create_vote_def DatabaseActor_get_zid_by_zinvite_def truthy_int_def
      DatabaseActor_get_or_create_participant_def DatabaseActor_create_participant_def
      DatabaseActor_get_vote_by_user_comment_def DatabaseActor_create_vote_def DatabaseActor_increment_vote_count_def next_id_def
      db_example_def db_voted_def user_example_def vote_response_def Let_def)

lemma correlationMatrix_no_path:
  "\<not> list_ex (\<lambda>(m', pat, name). path_matches pat ''/math/correlationMatrix'') router_routes"
  by code_simp

lemma correlationMatrix_no_slash_path:
  "\<not> list_ex (\<lambda>(m', pat, name). path_matches pat (toggle_slash ''/math/correlationMatrix''))
       router_routes"
  by code_simp

lemma py_int_examples:
  "py_int ''2'' = Some 2"
  "py_int '' +1_0 '' = Some 10"
  "py_int [CHR 0x1F, CHR ''2''] = None"
  "py_int ''1__0'' = None"
  by (simp_all add: py_int_def strip_def is_space_def digits_value_def digit_val_def)

lemma py_int_junk: "py_int ''junk'' = None"
  by (simp add: py_int_def strip_def is_space_def digits_value_def digit_val_def)

section \<open>The math endpoints are stubs\<close>

text \<open>
  C1. For every existing conversation (the invite code \<open>conversation_id\<close> resolves to a
  zid that Python treats as true), GET /math/pca returns status "ok" with data exactly
  \<open>{commentProjection: [], ptptotProjection: [], baseCluster: [], groupAware: false}\<close>
  and GET /math/pca2 returns status "ok" with data exactly
  \<open>{pca: {commentProjection: [], ptptotProjection: [], baseClusters: []}}\<close>; both leave
  the store as it was, for any caller.
\<close>

theorem pca_endpoints_return_empty_stub:
  assumes "DatabaseActor_get_zid_by_zinvite d conversation_id = Some zid" and "zid \<noteq> 0"
  shows "get_pca d conversation_id user =
           (Inr \<lparr>status = ''ok'',
                 data = Some (JObject
                   [(''commentProjection'', JArray []),
                    (''ptptotProjection'', JArray []),
                    (''baseCluster'', JArray []),
                    (''groupAware'', JBool False)]),
                 error = None\<rparr>, d)
       \<and> get_pca2 d conversation_id user =
           (Inr \<lparr>status = ''ok'',
                 data = Some (JObject
                   [(''pca'', JObject
                      [(''commentProjection'', JArray []),
                       (''ptptotProjection'', JArray []),
                       (''baseClusters'', JArray [])])]),
                 error = None\<rparr>, d)"
  using assms by (simp add: get_pca_def get_pca2_def truthy_int_def)

theorem pca_endpoints_return_empty_stub_witness:
  "DatabaseActor_get_zid_by_zinvite db_example ''abc'' = Some 7 \<and> (7::int) \<noteq> 0
   \<and> get_pca db_example ''abc'' None =
       (Inr \<lparr>status = ''ok'',
             data = Some (JObject
               [(''commentProjection'', JArray []),
                (''ptptotProjection'', JArray []),
                (''baseCluster'', JArray []),
                (''groupAware'', JBool False)]),
             error = None\<rparr>, db_example)
   \<and> get_pca2 db_example ''abc'' None =
       (Inr \<lparr>status = ''ok'',
             data = Some (JObject
               [(''pca'', JObject
                  [(''commentProjection'', JArray []),
                   (''ptptotProjection'', JArray []),
                   (''baseClusters'', JArray [])])]),
             error = None\<rparr>, db_example)"
proof -
  have r: "DatabaseActor_get_zid_by_zinvite db_example ''abc'' = Some 7"
    by (simp add: DatabaseActor_get_zid_by_zinvite_def db_example_def)
  have nz: "(7::int) \<noteq> 0" by simp
  show ?thesis
    using r nz pca_endpoints_return_empty_stub [OF r nz, of None] by simp
qed

section \<open>Requests for a conversation that does not exist\<close>

text \<open>
  C2. Let \<open>conversation_id\<close> resolve to no conversation. Every handler that takes a
  conversation id then raises and leaves the store exactly as it was: no vote is created or
  updated, no vote count is incremented, no participant, comment or invite code is
  created. The exception is HTTP 404 for GET /participants, POST /participants,
  PUT /conversations, POST /conversation/close, POST /conversation/reopen, GET /comments,
  GET /nextComment, GET /votes, GET /votes/me, POST /joinWithInvite, GET /math/pca,
  GET /math/pca2, GET /conversationStats and GET /conversations/preload; for
  GET /conversations and GET /participationInit when the id is not the empty text (which
  they take as no id given); for POST /votes when the vote value is in \<open>{-1, 0, 1}\<close>; and
  for POST /comments when the id and the comment text are not empty and the text is not all
  whitespace. POST /votes with another vote value and POST /comments with an empty id or
  an empty or blank text raise HTTP 400 instead, because these handlers check their
  arguments before they look the conversation up. The handlers are taken as the framework
  calls them: where a handler requires authentication, \<open>user\<close> is the authenticated caller.
\<close>

theorem nonexistent_conversation_fails_without_mutation:
  assumes "\<not> truthy_int (DatabaseActor_get_zid_by_zinvite d conversation_id)"
  shows "(vote \<in> {- 1, 0, 1} \<longrightarrow>
            create_vote d conversation_id tid vote user =
              (Inl (HTTPException 404 ''Conversation not found''), d))
       \<and> (vote \<notin> {- 1, 0, 1} \<longrightarrow>
            create_vote d conversation_id tid vote user =
              (Inl (HTTPException 400 ''Vote must be -1, 0, or 1''), d))
       \<and> (conversation_id \<noteq> [] \<and> comment_text \<noteq> [] \<and> str_strip comment_text \<noteq> [] \<longrightarrow>
            create_comment d user (Some conversation_id) (Some comment_text) None =
              (Inl (HTTPException 404 ''Conversation not found''), d)
            \<and> create_comment d user other_id other_txt
                 (Some \<lparr>cc_conversation_id = conversation_id, cc_txt = comment_text,
                        cc_pid = comment_pid, cc_is_seed = is_seed\<rparr>) =
              (Inl (HTTPException 404 ''Conversation not found''), d))
       \<and> (conversation_id = [] \<or> comment_text = [] \<or> str_strip comment_text = [] \<longrightarrow>
            (\<exists>detail. create_comment d user (Some conversation_id) (Some comment_text) None =
                        (Inl (HTTPException 400 detail), d))
            \<and> (\<exists>detail. create_comment d user other_id other_txt
                           (Some \<lparr>cc_conversation_id = conversation_id, cc_txt = comment_text,
                                  cc_pid = comment_pid, cc_is_seed = is_seed\<rparr>) =
                        (Inl (HTTPException 400 detail), d)))
       \<and> (conversation_id \<noteq> [] \<longrightarrow>
            get_conversations d (Some conversation_id) include_all is_active caller =
              (Inl (HTTPException 404 ''Conversation not found''), d))
       \<and> (conversation_id \<noteq> [] \<longrightarrow>
            participation_init ev d response (Some conversation_id) pid lang caller =
              (Inl (HTTPException 404 ''Conversation not found''), response, d))
       \<and> update_conversation d (request\<lparr>upd_conversation_id := conversation_id\<rparr>) user =
            (Inl (HTTPException 404 ''Conversation not found''), d)
       \<and> close_conversation d conversation_id user =
            (Inl (HTTPException 404 ''Conversation not found''), d)
       \<and> reopen_conversation d conversation_id user =
            (Inl (HTTPException 404 ''Conversation not found''), d)
       \<and> get_participants d conversation_id user =
            (Inl (HTTPException 404 ''Conversation not found''), d)
       \<and> join_conversation d conversation_id user =
            (Inl (HTTPException 404 ''Conversation not found''), d)
       \<and> join_with_invite d conversation_id caller =
            (Inl (HTTPException 404 ''Invalid invite code''), d)
       \<and> get_comments d conversation_id mod_filter caller =
            (Inl (HTTPException 404 ''Conversation not found''), d)
       \<and> get_next_comment d conversation_id user =
            (Inl (HTTPException 404 ''Conversation not found''), d)
       \<and> get_votes d conversation_id caller =
            (Inl (HTTPException 404 ''Conversation not found''), d)
       \<and> get_my_votes d conversation_id user =
            (Inl (HTTPException 404 ''Conversation not found''), d)
       \<and> get_conversation_stats d conversation_id caller =
            (Inl (HTTPException 404 ''Conversation not found''), d)
       \<and> preload_conversation d conversation_id caller =
            (Inl (HTTPException 404 ''Conversation not found''), d)
       \<and> get_pca d conversation_id caller =
            (Inl (HTTPException 404 ''Conversation not found''), d)
       \<and> get_pca2 d conversation_id caller =
            (Inl (HTTPException 404 ''Conversation not found''), d)"
proof -
  note nz = assms
  have votes: "(vote \<in> {- 1, 0, 1} \<longrightarrow>
            create_vote d conversation_id tid vote user =
              (Inl (HTTPException 404 ''Conversation not found''), d))
       \<and> (vote \<notin> {- 1, 0, 1} \<longrightarrow>
            create_vote d conversation_id tid vote user =
              (Inl (HTTPException 400 ''Vote must be -1, 0, or 1''), d))"
    using nz by (simp add: create_vote_def)
  have comments404: "conversation_id \<noteq> [] \<and> comment_text \<noteq> [] \<and> str_strip comment_text \<noteq> [] \<longrightarrow>
            create_comment d user (Some conversation_id) (Some comment_text) None =
              (Inl (HTTPException 404 ''Conversation not found''), d)
            \<and> create_comment d user other_id other_txt
                 (Some \<lparr>cc_conversation_id = conversation_id, cc_txt = comment_text,
                        cc_pid = comment_pid, cc_is_seed = is_seed\<rparr>) =
              (Inl (HTTPException 404 ''Conversation not found''), d)"
    using nz by (simp add: create_comment_def truthy_str_def)
  have comments400: "conversation_id = [] \<or> comment_text = [] \<or> str_strip comment_text = [] \<longrightarrow>
            (\<exists>detail. create_comment d user (Some conversation_id) (Some comment_text) None =
                        (Inl (HTTPException 400 detail), d))
            \<and> (\<exists>detail. create_comment d user other_id other_txt
                           (Some \<lparr>cc_conversation_id = conversation_id, cc_txt = comment_text,
                                  cc_pid = comment_pid, cc_is_seed = is_seed\<rparr>) =
                        (Inl (HTTPException 400 detail), d))"
    by (auto simp: create_comment_def truthy_str_def)
  have optional: "(conversation_id \<noteq> [] \<longrightarrow>
            get_conversations d (Some conversation_id) include_all is_active caller =
              (Inl (HTTPException 404 ''Conversation not found''), d))
       \<and> (conversation_id \<noteq> [] \<longrightarrow>
            participation_init ev d response (Some conversation_id) pid lang caller =
              (Inl (HTTPException 404 ''Conversation not found''), response, d))"
    using nz by (simp add: get_conversations_def participation_init_def truthy_str_def)
  have conv: "update_conversation d (request\<lparr>upd_conversation_id := conversation_id\<rparr>) user =
            (Inl (HTTPException 404 ''Conversation not found''), d)
       \<and> close_conversation d conversation_id user =
            (Inl (HTTPException 404 ''Conversation not found''), d)
       \<and> reopen_conversation d conversation_id user =
            (Inl (HTTPException 404 ''Conversation not found''), d)
       \<and> get_conversation_stats d conversation_id caller =
            (Inl (HTTPException 404 ''Conversation not found''), d)
       \<and> preload_conversation d conversation_id caller =
            (Inl (HTTPException 404 ''Conversation not found''), d)"
    using nz
    by (simp add: update_conversation_def close_conversation_def reopen_conversation_def
        get_conversation_stats_def preload_conversation_def)
  have ptpt: "get_participants d conversation_id user =
            (Inl (HTTPException 404 ''Conversation not found''), d)
       \<and> join_conversation d conversation_id user =
            (Inl (HTTPException 404 ''Conversation not found''), d)
       \<and> join_with_invite d conversation_id caller =
            (Inl (HTTPException 404 ''Invalid invite code''), d)"
    using nz by (simp add: get_participants_def join_conversation_def join_with_invite_def)
  have reads: "get_comments d conversation_id mod_filter caller =
            (Inl (HTTPException 404 ''Conversation not found''), d)
       \<and> get_next_comment d conversation_id user =
            (Inl (HTTPException 404 ''Conversation not found''), d)
       \<and> get_votes d conversation_id caller =
            (Inl (HTTPException 404 ''Conversation not found''), d)
       \<and> get_my_votes d conversation_id user =
            (Inl (HTTPException 404 ''Conversation not found''), d)"
    using nz
    by (simp add: get_comments_def get_next_comment_def get_votes_def get_my_votes_def)
  have math: "get_pca d conversation_id caller =
            (Inl (HTTPException 404 ''Conversation not found''), d)
       \<and> get_pca2 d conversation_id caller =
            (Inl (HTTPException 404 ''Conversation not found''), d)"
    using nz by (simp add: get_pca_def get_pca2_def)
  from votes comments404 comments400 optional conv ptpt reads math show ?thesis
    by (intro conjI) (erule conjunct1 conjunct2 | elim conjE, assumption)+
qed

theorem nonexistent_conversation_fails_without_mutation_witness:
  "\<not> truthy_int (DatabaseActor_get_zid_by_zinvite db_voted ''nope'')
   \<and> (1::int) \<in> {- 1, 0, 1} \<and> (2::int) \<notin> {- 1, 0, 1}
   \<and> ''nope'' \<noteq> [] \<and> ''hi'' \<noteq> [] \<and> str_strip ''hi'' \<noteq> []
   \<and> create_vote db_voted ''nope'' 3 1 user_example =
       (Inl (HTTPException 404 ''Conversation not found''), db_voted)
   \<and> create_vote db_voted ''nope'' 3 2 user_example =
       (Inl (HTTPException 400 ''Vote must be -1, 0, or 1''), db_voted)
   \<and> create_comment db_voted user_example (Some ''nope'') (Some ''hi'') None =
       (Inl (HTTPException 404 ''Conversation not found''), db_voted)
   \<and> get_conversations db_voted (Some ''nope'') False None None =
       (Inl (HTTPException 404 ''Conversation not found''), db_voted)
   \<and> participation_init env_example db_voted [] (Some ''nope'') None None None =
       (Inl (HTTPException 404 ''Conversation not found''), [], db_voted)
   \<and> get_next_comment db_voted ''nope'' user_example =
       (Inl (HTTPException 404 ''Conversation not found''), db_voted)
   \<and> join_conversation db_voted ''nope'' user_example =
       (Inl (HTTPException 404 ''Conversation not found''), db_voted)
   \<and> get_pca db_voted ''nope'' None =
       (Inl (HTTPException 404 ''Conversation not found''), db_voted)"
proof -
  have h: "\<not> truthy_int (DatabaseActor_get_zid_by_zinvite db_voted ''nope'')"
    by (simp add: DatabaseActor_get_zid_by_zinvite_def db_voted_eval truthy_int_def)
  have s: "str_strip ''hi'' \<noteq> []"
    by (simp add: str_strip_def is_space_str_def)
  show ?thesis
    using h s
      nonexistent_conversation_fails_without_mutation
        [where d = db_voted and conversation_id = "''nope''" and vote = "1" and tid = "3"
           and user = user_example and comment_text = "''hi''" and caller = None
           and include_all = False and is_active = None and ev = env_example
           and response = "[]" and pid = None and lang = None, OF h]
      nonexistent_conversation_fails_without_mutation
        [where d = db_voted and conversation_id = "''nope''" and vote = "2" and tid = "3"
           and user = user_example, OF h]
    by simp
qed

text \<open>
  So 404 is not the answer to every request that names a missing conversation: POST /votes
  with the vote value 2 and POST /comments with a blank text are answered 400.
\<close>

theorem nonexistent_conversation_not_always_404:
  "DatabaseActor_get_zid_by_zinvite db_example ''nope'' = None
   \<and> create_vote db_example ''nope'' 3 2 user_example =
       (Inl (HTTPException 400 ''Vote must be -1, 0, or 1''), db_example)
   \<and> fst (create_vote db_example ''nope'' 3 2 user_example) \<noteq>
       Inl (HTTPException 404 ''Conversation not found'')
   \<and> create_comment db_example user_example (Some ''nope'') (Some '' '') None =
       (Inl (HTTPException 400 ''Comment text required''), db_example)"
  by (simp add: DatabaseActor_get_zid_by_zinvite_def db_example_def create_vote_def
      create_comment_def truthy_str_def str_strip_def is_space_str_def)

section \<open>Recording votes\<close>

text \<open>
  C3. Last vote wins, with at most one vote per (user, comment) pair. If the vote table has
  no two rows for the same pair, it has none after POST /votes either, whatever the request.
  And when an accepted request (vote value in \<open>{-1, 0, 1}\<close>, existing conversation) finds a
  vote \<open>e\<close> of that user on that comment, the response carries \<open>e\<close>'s id and the new value,
  the table is the old one with the value of the row of that id overwritten, it has as many
  rows as before, and the vote on record for the pair is \<open>e\<close> with the new value.
\<close>

theorem create_vote_last_vote_wins:
  assumes inv: "votes_unique d"
  shows "votes_unique (snd (create_vote d conversation_id tid vote user))
       \<and> (\<forall>zid e.
            vote \<in> {- 1, 0, 1} \<longrightarrow>
            DatabaseActor_get_zid_by_zinvite d conversation_id = Some zid \<longrightarrow>
            zid \<noteq> 0 \<longrightarrow>
            DatabaseActor_get_vote_by_user_comment d (uid user) tid = Some e \<longrightarrow>
              fst (create_vote d conversation_id tid vote user) =
                Inr (vote_response (vote_id e)
                       (participant_pid
                          (fst (DatabaseActor_get_or_create_participant d zid (uid user))))
                       tid vote)
            \<and> votes (snd (create_vote d conversation_id tid vote user)) =
                map (\<lambda>r. if vote_id r = vote_id e then r\<lparr>vote_value := vote\<rparr> else r) (votes d)
            \<and> length (votes (snd (create_vote d conversation_id tid vote user))) =
                length (votes d)
            \<and> DatabaseActor_get_vote_by_user_comment
                (snd (create_vote d conversation_id tid vote user)) (uid user) tid =
                Some (e\<lparr>vote_value := vote\<rparr>))"
proof (intro conjI allI impI)
  show "votes_unique (snd (create_vote d conversation_id tid vote user))"
    using inv by (rule inv_preserved)
next
  fix zid :: int and e :: vote_row
  assume valid: "vote \<in> {- 1, 0, 1}"
    and zid: "DatabaseActor_get_zid_by_zinvite d conversation_id = Some zid" "zid \<noteq> 0"
    and ex: "DatabaseActor_get_vote_by_user_comment d (uid user) tid = Some e"
  obtain p d0 where goc: "DatabaseActor_get_or_create_participant d zid (uid user) = (p, d0)"
    by (cases "DatabaseActor_get_or_create_participant d zid (uid user)")
  note first = create_vote_existing [OF valid zid goc ex]
  note second = second_vote_existing [OF valid zid goc ex refl]
  show "fst (create_vote d conversation_id tid vote user) =
          Inr (vote_response (vote_id e)
                 (participant_pid
                    (fst (DatabaseActor_get_or_create_participant d zid (uid user))))
                 tid vote)"
    using first goc by simp
  show "votes (snd (create_vote d conversation_id tid vote user)) =
          map (\<lambda>r. if vote_id r = vote_id e then r\<lparr>vote_value := vote\<rparr> else r) (votes d)"
    using first by simp
  then show "length (votes (snd (create_vote d conversation_id tid vote user))) =
          length (votes d)"
    by simp
  show "DatabaseActor_get_vote_by_user_comment
          (snd (create_vote d conversation_id tid vote user)) (uid user) tid =
          Some (e\<lparr>vote_value := vote\<rparr>)"
    using first second(2) by simp
qed

theorem create_vote_last_vote_wins_witness:
  "votes_unique db_voted
   \<and> (- 1::int) \<in> {- 1, 0, 1}
   \<and> DatabaseActor_get_zid_by_zinvite db_voted ''abc'' = Some 7
   \<and> DatabaseActor_get_vote_by_user_comment db_voted (uid user_example) 3 =
       Some \<lparr>vote_id = 1, vote_user_id = 1, vote_comment_id = 3, vote_value = 1,
         vote_created = Some ''2026-01-02T00:00:00''\<rparr>
   \<and> votes_unique (snd (create_vote db_voted ''abc'' 3 (- 1) user_example))
   \<and> fst (create_vote db_voted ''abc'' 3 (- 1) user_example) = Inr (vote_response 1 1 3 (- 1))
   \<and> votes (snd (create_vote db_voted ''abc'' 3 (- 1) user_example)) =
       [\<lparr>vote_id = 1, vote_user_id = 1, vote_comment_id = 3, vote_value = - 1,
         vote_created = Some ''2026-01-02T00:00:00''\<rparr>]"
proof -
  have inv: "votes_unique db_voted"
    by (simp add: votes_unique_def db_voted_eval)
  have z: "DatabaseActor_get_zid_by_zinvite db_voted ''abc'' = Some 7"
    by (simp add: DatabaseActor_get_zid_by_zinvite_def db_voted_eval)
  have e: "DatabaseActor_get_vote_by_user_comment db_voted (uid user_example) 3 =
       Some \<lparr>vote_id = 1, vote_user_id = 1, vote_comment_id = 3, vote_value = 1,
         vote_created = Some ''2026-01-02T00:00:00''\<rparr>"
    by (simp add: DatabaseActor_get_vote_by_user_comment_def db_voted_eval user_example_def)
  have p: "DatabaseActor_get_or_create_participant db_voted 7 (uid user_example) =
       (\<lparr>participant_pid = 1, participant_zid = 7, participant_uid = 1,
         participant_vote_count = 1, participant_created = Some ''2026-01-02T00:00:00'',
         participant_pc = None\<rparr>, db_voted)"
    by (simp add: DatabaseActor_get_or_create_participant_def db_voted_eval user_example_def)
  show ?thesis
    using inv z e p create_vote_last_vote_wins [OF inv, of "''abc''" 3 "- 1" user_example]
    by (simp add: db_voted_eval)
qed

text \<open>
  C4. Recording the same vote twice. Let an accepted POST /votes (vote value in
  \<open>{-1, 0, 1}\<close>, existing conversation) return \<open>r1\<close> and leave the store \<open>d1\<close>. Then \<open>r1\<close> is a
  response and not an exception, the vote on record for the (user, comment) pair has the
  submitted value, and the same request sent again returns \<open>r1\<close> again and leaves \<open>d1\<close>
  unchanged: the stored value stays and no vote count moves. If the user had no vote on the
  comment before, the first request has raised the participant's vote count by exactly one.
\<close>

theorem create_vote_idempotent:
  assumes valid: "vote \<in> {- 1, 0, 1}"
    and zid: "DatabaseActor_get_zid_by_zinvite d conversation_id = Some zid" "zid \<noteq> 0"
    and first: "create_vote d conversation_id tid vote user = (r1, d1)"
  shows "(\<exists>resp. r1 = Inr resp)
       \<and> map_option vote_value (DatabaseActor_get_vote_by_user_comment d1 (uid user) tid) =
           Some vote
       \<and> create_vote d1 conversation_id tid vote user = (r1, d1)
       \<and> (DatabaseActor_get_vote_by_user_comment d (uid user) tid = None \<longrightarrow>
            map_option participant_vote_count
              (DatabaseActor_get_participant_by_zid_uid d1 zid (uid user)) =
            Some (participant_vote_count
                    (fst (DatabaseActor_get_or_create_participant d zid (uid user))) + 1))"
proof -
  obtain p d0 where goc: "DatabaseActor_get_or_create_participant d zid (uid user) = (p, d0)"
    by (cases "DatabaseActor_get_or_create_participant d zid (uid user)")
  show ?thesis
  proof (cases "DatabaseActor_get_vote_by_user_comment d (uid user) tid")
    case None
    define n where "n = \<lparr>vote_id = next_id (map vote_id (votes d)), vote_user_id = uid user,
                   vote_comment_id = tid, vote_value = vote,
                   vote_created = Some (clock d)\<rparr>"
    have r1: "r1 = Inr (vote_response (vote_id n) (participant_pid p) tid vote)"
      and d1: "d1 = DatabaseActor_increment_vote_count (d0\<lparr>votes := votes d @ [n]\<rparr>)
                      (participant_pid p)"
      using create_vote_new [OF valid zid goc None] first by (simp_all add: n_def)
    note s = second_vote_new [OF valid zid goc None n_def d1]
    show ?thesis using s r1 None goc by (simp add: n_def)
  next
    case (Some e)
    have r1: "r1 = Inr (vote_response (vote_id e) (participant_pid p) tid vote)"
      and d1: "d1 = d0\<lparr>votes := map (\<lambda>r. if vote_id r = vote_id e
                                          then r\<lparr>vote_value := vote\<rparr> else r) (votes d)\<rparr>"
      using create_vote_existing [OF valid zid goc Some] first by simp_all
    note s = second_vote_existing [OF valid zid goc Some d1]
    show ?thesis using s r1 Some by simp
  qed
qed

theorem create_vote_idempotent_witness:
  "(1::int) \<in> {- 1, 0, 1}
   \<and> DatabaseActor_get_zid_by_zinvite db_example ''abc'' = Some 7
   \<and> create_vote db_example ''abc'' 3 1 user_example = (Inr (vote_response 1 1 3 1), db_voted)
   \<and> DatabaseActor_get_vote_by_user_comment db_example (uid user_example) 3 = None
   \<and> create_vote db_voted ''abc'' 3 1 user_example = (Inr (vote_response 1 1 3 1), db_voted)
   \<and> map_option participant_vote_count
        (DatabaseActor_get_participant_by_zid_uid db_voted 7 (uid user_example)) = Some 1"
proof -
  have v: "(1::int) \<in> {- 1, 0, 1}" by simp
  have z: "DatabaseActor_get_zid_by_zinvite db_example ''abc'' = Some 7"
    by (simp add: DatabaseActor_get_zid_by_zinvite_def db_example_def)
  have nz: "(7::int) \<noteq> 0" by simp
  have n: "DatabaseActor_get_vote_by_user_comment db_example (uid user_example) 3 = None"
    by (simp add: DatabaseActor_get_vote_by_user_comment_def db_example_def)
  have p: "participant_vote_count
             (fst (DatabaseActor_get_or_create_participant db_example 7 (uid user_example))) = 0"
    by (simp add: DatabaseActor_get_or_create_participant_def
        DatabaseActor_create_participant_def db_example_def Let_def)
  show ?thesis
    using v z n p create_vote_idempotent [OF v z nz first_vote_example]
    by (simp add: first_vote_example)
qed

text \<open>
  C7. A vote value outside \<open>{-1, 0, 1}\<close> makes POST /votes raise HTTP 400 "Vote must be -1,
  0, or 1", whether or not the conversation exists, and the store is left exactly as it
  was: no vote is created or updated and no participant is created.
\<close>

theorem create_vote_rejects_invalid_value:
  assumes "vote \<notin> {- 1, 0, 1}"
  shows "create_vote d conversation_id tid vote user =
           (Inl (HTTPException 400 ''Vote must be -1, 0, or 1''), d)"
  using assms by (simp add: create_vote_def)

theorem create_vote_rejects_invalid_value_witness:
  "(2::int) \<notin> {- 1, 0, 1}
   \<and> create_vote db_voted ''abc'' 3 2 user_example =
       (Inl (HTTPException 400 ''Vote must be -1, 0, or 1''), db_voted)"
proof -
  have h: "(2::int) \<notin> {- 1, 0, 1}" by simp
  show ?thesis
    using h create_vote_rejects_invalid_value [OF h, of db_voted "''abc''" 3 user_example]
    by simp
qed

section \<open>The correlation matrix endpoint\<close>

text \<open>
  C5. The router has no route for \<^verbatim>\<open>/math/correlationMatrix\<close>: a request to that path,
  with any method, matches nothing in the route table and is answered 404, so no
  correlation matrix is ever returned.
\<close>

theorem correlationMatrix_not_routed:
  "router_dispatch m ''/math/correlationMatrix'' = NotFound"
proof -
  let ?path = "''/math/correlationMatrix''"
  have none: "\<forall>r \<in> set router_routes. \<not> (case r of (m', pat, name) \<Rightarrow> path_matches pat ?path)"
    using correlationMatrix_no_path by (simp add: list_ex_iff)
  then have "find (\<lambda>(m', pat, name). path_matches pat ?path \<and> m' = m) router_routes = None"
    by (auto simp: find_None_iff)
  then show ?thesis
    using correlationMatrix_no_path correlationMatrix_no_slash_path
    by (simp add: router_dispatch_def)
qed

section \<open>Authentication\<close>

text \<open>
  C6. The outcome of authentication does not depend on the value of the credential.
  \<open>verify_token\<close> returns 1 for every token. With a non-empty bearer token, or with a
  non-empty \<^verbatim>\<open>token2\<close> cookie and no bearer header, and a \<^verbatim>\<open>uid2\<close> cookie that names no
  user, \<open>get_current_user\<close> returns the identity of user 1 if that user exists (and nothing
  otherwise). Two requests that differ only in the non-empty token text get the same
  identity, whatever the \<^verbatim>\<open>uid2\<close> cookie.
\<close>

theorem authentication_ignores_token_value:
  "verify_token t = Some 1
   \<and> (t \<noteq> [] \<longrightarrow> \<not> valid_uid2 d uid2 \<longrightarrow>
        get_current_user d (Some (''Bearer '' @ t)) token2 uid2 =
          map_option (\<lambda>user. \<lparr>uid = user_id user, email = user_email user,
                                is_admin = user_is_admin user\<rparr>)
            (DatabaseActor_read_user d 1))
   \<and> (t \<noteq> [] \<longrightarrow> \<not> valid_uid2 d uid2 \<longrightarrow>
        \<not> (truthy_str authorization \<and> startswith (the authorization) ''Bearer '') \<longrightarrow>
        get_current_user d authorization (Some t) uid2 =
          map_option (\<lambda>user. \<lparr>uid = user_id user, email = user_email user,
                                is_admin = user_is_admin user\<rparr>)
            (DatabaseActor_read_user d 1))
   \<and> (t \<noteq> [] \<longrightarrow> t' \<noteq> [] \<longrightarrow>
        get_current_user d (Some (''Bearer '' @ t)) token2 uid2 =
        get_current_user d (Some (''Bearer '' @ t')) token2 uid2)
   \<and> (t \<noteq> [] \<longrightarrow> t' \<noteq> [] \<longrightarrow>
        \<not> (truthy_str authorization \<and> startswith (the authorization) ''Bearer '') \<longrightarrow>
        get_current_user d authorization (Some t) uid2 =
        get_current_user d authorization (Some t') uid2)"
proof (intro conjI impI)
  show "verify_token t = Some 1" by (simp add: verify_token_def)
next
  assume "t \<noteq> []" "\<not> valid_uid2 d uid2"
  then show "get_current_user d (Some (''Bearer '' @ t)) token2 uid2 =
          map_option (\<lambda>user. \<lparr>uid = user_id user, email = user_email user,
                                is_admin = user_is_admin user\<rparr>)
            (DatabaseActor_read_user d 1)"
    using get_current_user_bearer [of t d token2 uid2] by (simp split: option.splits)
next
  assume "t \<noteq> []" "\<not> valid_uid2 d uid2"
    "\<not> (truthy_str authorization \<and> startswith (the authorization) ''Bearer '')"
  then show "get_current_user d authorization (Some t) uid2 =
          map_option (\<lambda>user. \<lparr>uid = user_id user, email = user_email user,
                                is_admin = user_is_admin user\<rparr>)
            (DatabaseActor_read_user d 1)"
    using get_current_user_cookie [of t authorization d uid2] by (simp split: option.splits)
next
  assume "t \<noteq> []" "t' \<noteq> []"
  then show "get_current_user d (Some (''Bearer '' @ t)) token2 uid2 =
        get_current_user d (Some (''Bearer '' @ t')) token2 uid2"
    using get_current_user_bearer [of t d token2 uid2]
      get_current_user_bearer [of t' d token2 uid2] by simp
next
  assume "t \<noteq> []" "t' \<noteq> []"
    "\<not> (truthy_str authorization \<and> startswith (the authorization) ''Bearer '')"
  then show "get_current_user d authorization (Some t) uid2 =
        get_current_user d authorization (Some t') uid2"
    using get_current_user_cookie [of t authorization d uid2]
      get_current_user_cookie [of t' authorization d uid2] by simp
qed

theorem authentication_ignores_token_value_witness:
  "''stolen'' \<noteq> [] \<and> ''guess'' \<noteq> [] \<and> \<not> valid_uid2 db_example (Some ''junk'')
   \<and> \<not> (truthy_str None \<and> startswith (the None) ''Bearer '')
   \<and> verify_token ''guess'' = Some 1
   \<and> get_current_user db_example (Some ''Bearer guess'') None (Some ''junk'') =
       Some \<lparr>uid = 1, email = ''a@x.org'', is_admin = False\<rparr>
   \<and> get_current_user db_example (Some ''Bearer stolen'') None (Some ''junk'') =
       Some \<lparr>uid = 1, email = ''a@x.org'', is_admin = False\<rparr>
   \<and> get_current_user db_example None (Some ''guess'') (Some ''junk'') =
       Some \<lparr>uid = 1, email = ''a@x.org'', is_admin = False\<rparr>
   \<and> \<not> valid_uid2 db_two_users (Some [CHR 0x1F, CHR ''2''])
   \<and> get_current_user db_two_users (Some ''Bearer guess'') None (Some [CHR 0x1F, CHR ''2'']) =
       Some \<lparr>uid = 1, email = ''a@x.org'', is_admin = False\<rparr>"
proof -
  have a: "''stolen'' \<noteq> []" "''guess'' \<noteq> []" by simp_all
  have b: "\<not> valid_uid2 db_example (Some ''junk'')"
    by (simp add: valid_uid2_def py_int_junk)
  have c: "\<not> (truthy_str None \<and> startswith (the None) ''Bearer '')"
    by (simp add: truthy_str_def)
  have u: "DatabaseActor_read_user db_example 1 =
             Some \<lparr>user_id = 1, user_email = ''a@x.org'', user_auth_token = ''h1'',
                   user_hname = None, user_is_admin = False, user_other = []\<rparr>"
    by (simp add: DatabaseActor_read_user_def db_example_def)
  have b2: "\<not> valid_uid2 db_two_users (Some [CHR 0x1F, CHR ''2''])"
    by (simp add: valid_uid2_def py_int_examples)
  have u2: "DatabaseActor_read_user db_two_users 1 =
             Some \<lparr>user_id = 1, user_email = ''a@x.org'', user_auth_token = ''h1'',
                   user_hname = None, user_is_admin = False, user_other = []\<rparr>"
    by (simp add: DatabaseActor_read_user_def db_two_users_def db_example_def)
  show ?thesis
    using a b c u b2 u2
      authentication_ignores_token_value
        [of "''guess''" db_two_users "Some [CHR 0x1F, CHR ''2'']" None None "''stolen''"]
      authentication_ignores_token_value
        [of "''guess''" db_example "Some ''junk''" None None "''stolen''"]
      authentication_ignores_token_value
        [of "''stolen''" db_example "Some ''junk''" None None "''guess''"]
    by simp
qed

section \<open>The math results\<close>

text \<open>
  C8. The math endpoints are deterministic. GET /math/pca leaves the store as it was, and a
  second call on the store it leaves, by any caller, returns exactly what the first call
  returned; the same holds for GET /math/pca2. Moreover the result is a function of the
  invite table alone: two stores that agree on it give the same result, whatever their
  votes and participants.
\<close>

theorem pca_repeated_calls_identical:
  "snd (get_pca d conversation_id caller) = d
   \<and> get_pca (snd (get_pca d conversation_id caller)) conversation_id caller' =
       get_pca d conversation_id caller
   \<and> snd (get_pca2 d conversation_id caller) = d
   \<and> get_pca2 (snd (get_pca2 d conversation_id caller)) conversation_id caller' =
       get_pca2 d conversation_id caller
   \<and> (zinvites d' = zinvites d \<longrightarrow>
        fst (get_pca d' conversation_id caller') = fst (get_pca d conversation_id caller)
        \<and> fst (get_pca2 d' conversation_id caller') = fst (get_pca2 d conversation_id caller))"
  by (simp add: get_pca_def get_pca2_def Let_def DatabaseActor_get_zid_by_zinvite_def)

theorem pca_repeated_calls_identical_witness:
  "zinvites db_voted = zinvites db_example
   \<and> votes db_voted \<noteq> votes db_example
   \<and> fst (get_pca db_voted ''abc'' (Some user_example)) = fst (get_pca db_example ''abc'' None)
   \<and> fst (get_pca2 db_voted ''abc'' (Some user_example)) = fst (get_pca2 db_example ''abc'' None)
   \<and> get_pca (snd (get_pca db_voted ''abc'' None)) ''abc'' None = get_pca db_voted ''abc'' None"
proof -
  have z: "zinvites db_voted = zinvites db_example"
    by (simp add: db_voted_def)
  have v: "votes db_voted \<noteq> votes db_example"
    by (simp add: db_voted_def db_example_def)
  show ?thesis
    using z v
      pca_repeated_calls_identical
        [where d = db_example and d' = db_voted and conversation_id = "''abc''"
           and caller = None and caller' = "Some user_example"]
      pca_repeated_calls_identical
        [where d = db_voted and d' = db_voted and conversation_id = "''abc''"
           and caller = None and caller' = None]
    by simp
qed

text \<open>
  C9. For every existing conversation, with no votes or with any, GET /math/pca and
  GET /math/pca2 raise nothing and return a response whose two projections are empty lists
  and whose list of clusters is empty: there is no cluster at all in the result.
\<close>

theorem zero_votes_empty_result:
  assumes "DatabaseActor_get_zid_by_zinvite d conversation_id = Some zid" and "zid \<noteq> 0"
  shows "(\<exists>resp. get_pca d conversation_id caller = (Inr resp, d))
       \<and> pca_field (fst (get_pca d conversation_id caller)) ''commentProjection'' = Some []
       \<and> pca_field (fst (get_pca d conversation_id caller)) ''ptptotProjection'' = Some []
       \<and> cluster_count (fst (get_pca d conversation_id caller)) = Some 0
       \<and> (\<exists>resp. get_pca2 d conversation_id caller = (Inr resp, d))
       \<and> pca2_field (fst (get_pca2 d conversation_id caller)) ''commentProjection'' = Some []
       \<and> pca2_field (fst (get_pca2 d conversation_id caller)) ''ptptotProjection'' = Some []
       \<and> cluster_count2 (fst (get_pca2 d conversation_id caller)) = Some 0"
  using assms
  by (simp add: get_pca_def get_pca2_def truthy_int_def cluster_count_def cluster_count2_def
      pca_field_def pca2_field_def json_get_def json_array_def)

theorem zero_votes_empty_result_witness:
  "DatabaseActor_get_zid_by_zinvite db_example ''abc'' = Some 7 \<and> (7::int) \<noteq> 0
   \<and> votes db_example = []
   \<and> pca_field (fst (get_pca db_example ''abc'' None)) ''commentProjection'' = Some []
   \<and> pca_field (fst (get_pca db_example ''abc'' None)) ''ptptotProjection'' = Some []
   \<and> cluster_count (fst (get_pca db_example ''abc'' None)) = Some 0
   \<and> cluster_count2 (fst (get_pca2 db_example ''abc'' None)) = Some 0"
proof -
  have z: "DatabaseActor_get_zid_by_zinvite db_example ''abc'' = Some 7"
    by (simp add: DatabaseActor_get_zid_by_zinvite_def db_example_def)
  have nz: "(7::int) \<noteq> 0" by simp
  have v: "votes db_example = []" by (simp add: db_example_def)
  show ?thesis
    using z nz v zero_votes_empty_result [OF z nz, of None] by simp
qed

text \<open>
  The result does not hold a single empty cluster. In a store with one conversation and no
  votes the list of clusters has length 0, not 1.
\<close>

theorem zero_votes_no_single_cluster:
  "votes db_example = []
   \<and> DatabaseActor_get_zid_by_zinvite db_example ''abc'' = Some 7
   \<and> cluster_count (fst (get_pca db_example ''abc'' None)) = Some 0
   \<and> cluster_count (fst (get_pca db_example ''abc'' None)) \<noteq> Some 1"
  by (simp add: db_example_def DatabaseActor_get_zid_by_zinvite_def get_pca_def truthy_int_def
      cluster_count_def pca_field_def json_get_def json_array_def)

section \<open>Registration\<close>

text \<open>
  The store keeps whatever it is given: a name handed to \<open>create_user\<close> under
  \<^verbatim>\<open>hname\<close> fills the name column of the new row, and under any key that is not a column
  it stays with the row.
\<close>

lemma create_user_keeps_every_key:
  "user_hname (fst (DatabaseActor_create_user d
      [(''email'', JStr e), (''auth_token'', JStr t), (''hname'', JStr n)])) = Some n"
  "user_other (fst (DatabaseActor_create_user d
      [(''email'', JStr e), (''auth_token'', JStr t), (''name'', JStr n)])) =
     [(''name'', JStr n)]"
  "user_is_admin (fst (DatabaseActor_create_user d
      [(''email'', JStr e), (''auth_token'', JStr t), (''is_admin'', JBool True)]))"
  by (simp_all add: DatabaseActor_create_user_def user_columns_def Let_def)

text \<open>
  C10. POST /auth/new discards the display name. Changing \<open>name\<close> and \<open>hname\<close> in a
  registration request changes nothing in what the handler returns, in the cookies it sets
  or in the store it leaves. A request that is refused leaves the store as it was. A request
  that is accepted leaves the store that \<open>create_user\<close> produces from the dict holding only
  the email and the SHA-256 hex digest of the password: one new user row with a fresh id,
  that email, that digest, no name, no administrator right and no further key.
\<close>

theorem register_user_discards_name:
  "register_user ev d (request\<lparr>req_name := n, req_hname := h\<rparr>) response =
     register_user ev d request response
   \<and> (case register_user ev d request response of
        (Inl e, response', d') \<Rightarrow> d' = d
      | (Inr j, response', d') \<Rightarrow>
          d' = snd (DatabaseActor_create_user d
                      [(''email'', JStr (req_email request)),
                       (''auth_token'', JStr (sha256_hexdigest ev (req_password request)))])
          \<and> d' = d\<lparr>users := users d @
                     [\<lparr>user_id = next_id (map user_id (users d)),
                       user_email = req_email request,
                       user_auth_token = sha256_hexdigest ev (req_password request),
                       user_hname = None,
                       user_is_admin = False,
                       user_other = []\<rparr>]\<rparr>)"
  by (simp add: register_user_def DatabaseActor_create_user_def user_columns_def Let_def
      split: option.splits)

theorem register_user_discards_name_witness:
  "register_user env_example db_example request_example [] =
     register_user env_example db_example
       (request_example\<lparr>req_name := None, req_hname := Some ''B.''\<rparr>) []
   \<and> req_name request_example = Some ''Bea''
   \<and> users (snd (snd (register_user env_example db_example request_example []))) =
       users db_example @
         [\<lparr>user_id = 2, user_email = ''b@x.org'', user_auth_token = ''#pw'',
           user_hname = None, user_is_admin = False, user_other = []\<rparr>]"
  using register_user_discards_name
    [where ev = env_example and d = db_example and request = request_example
       and n = None and h = "Some ''B.''" and response = "[]"]
  by (simp add: register_user_def DatabaseActor_create_user_def user_columns_def
      DatabaseActor_read_user_by_email_def Let_def env_example_def db_example_def
      request_example_def next_id_def)

end
